theory Spec2Isabelle
  imports Main
begin

section \<open>db\_configure\_nat.py: provisioning a NAT gateway, its route table and routes\<close>

text \<open>
  The script talks to two things outside itself: the operator, through \<open>input\<close> and
  \<open>print\<close>, and the EC2 service, through a boto3 client. Both are made explicit.
  A \<open>world\<close> holds the lines still to be read from standard input, everything written to
  standard output, the calls made on the client so far, those of them that raised, and the
  seconds spent in \<open>time.sleep\<close>. The client is a record of its methods; each method sees
  the calls made before it, so a stub may answer differently on a later attempt. A Python exception is
  a value of type \<open>exn\<close>, and a function that may raise returns \<open>exn + 'a\<close>.
  A Python \<open>str\<close> is a \<open>string\<close>: one \<open>char\<close> per code point, code points below 256.
  Standard output is the list of the texts written, one entry for each \<open>print\<close> and each
  prompt of \<open>input\<close>, without the newline that \<open>print\<close> adds. The responses of the client
  are taken as well formed: a call that succeeds gives the identifier the script reads
  from the response.
\<close>

subsection \<open>Strings\<close>

abbreviation NL :: char where
  "NL \<equiv> CHR 0x0A"

abbreviation DQ :: char where
  "DQ \<equiv> CHR 0x22"

abbreviation SQ :: char where
  "SQ \<equiv> CHR 0x27"

text \<open>\<open>sub in s\<close> on strings.\<close>

fun py_in :: "string \<Rightarrow> string \<Rightarrow> bool" where
  "py_in sub [] = (sub = [])"
| "py_in sub (c # cs) = (take (length sub) (c # cs) = sub \<or> py_in sub cs)"

text \<open>\<open>str.lower\<close>: the capital letters below code point 256 are A to Z and the
  Latin-1 capitals 0xC0 to 0xDE without the multiplication sign 0xD7.\<close>

definition lower_char :: "char \<Rightarrow> char" where
  "lower_char c =
     (let n = (of_char c :: nat)
      in if (65 \<le> n \<and> n \<le> 90) \<or> (192 \<le> n \<and> n \<le> 222 \<and> n \<noteq> 215)
         then char_of (n + 32) else c)"

definition py_lower :: "string \<Rightarrow> string" where
  "py_lower s = map lower_char s"

text \<open>\<open>str(n)\<close> for a natural number.\<close>

definition digit_char :: "nat \<Rightarrow> char" where
  "digit_char d = char_of (48 + d)"

function str_nat :: "nat \<Rightarrow> string" where
  "str_nat n = (if n < 10 then [digit_char n] else str_nat (n div 10) @ [digit_char (n mod 10)])"
  by pat_completeness auto
termination
  by (relation "measure id") auto

declare str_nat.simps [simp del]

text \<open>\<open>"{}".format(x)\<close> for a value that is a string or \<open>None\<close>.\<close>

fun str_opt :: "string option \<Rightarrow> string" where
  "str_opt None = ''None''"
| "str_opt (Some s) = s"

subsection \<open>Exceptions\<close>

text \<open>
  The botocore exceptions carry their message, which is what \<open>str(e)\<close> gives.
  \<open>PyException args\<close> is the builtin \<open>Exception(*args)\<close>.
\<close>

datatype boto_error =
    ClientError string
  | NoRegionError string
  | NoCredentialsError string
  | WaiterError string
  | ParamValidationError string

fun boto_str :: "boto_error \<Rightarrow> string" where
  "boto_str (ClientError m) = m"
| "boto_str (NoRegionError m) = m"
| "boto_str (NoCredentialsError m) = m"
| "boto_str (WaiterError m) = m"
| "boto_str (ParamValidationError m) = m"

datatype exn =
    Boto boto_error
  | PyException "string list"
  | EOFError

text \<open>\<open>repr\<close> of a string, needed for \<open>str\<close> of an exception with several arguments.\<close>

definition hex_digit :: "nat \<Rightarrow> char" where
  "hex_digit d = (if d < 10 then char_of (48 + d) else char_of (87 + d))"

definition repr_char :: "char \<Rightarrow> char \<Rightarrow> string" where
  "repr_char q c =
     (let n = (of_char c :: nat)
      in if c = q \<or> c = CHR 0x5C then [CHR 0x5C, c]
         else if n = 10 then [CHR 0x5C, CHR ''n'']
         else if n = 13 then [CHR 0x5C, CHR ''r'']
         else if n = 9 then [CHR 0x5C, CHR ''t'']
         else if n < 32 \<or> (127 \<le> n \<and> n \<le> 160) \<or> n = 173
           then [CHR 0x5C, CHR ''x'', hex_digit (n div 16), hex_digit (n mod 16)]
         else [c])"

definition py_repr :: "string \<Rightarrow> string" where
  "py_repr s =
     (let q = (if CHR 0x27 \<in> set s \<and> CHR 0x22 \<notin> set s then CHR 0x22 else CHR 0x27)
      in [q] @ concat (map (repr_char q) s) @ [q])"

fun join_comma :: "string list \<Rightarrow> string" where
  "join_comma [] = []"
| "join_comma [a] = a"
| "join_comma (a # b # bs) = a @ '', '' @ join_comma (b # bs)"

fun exn_str :: "exn \<Rightarrow> string" where
  "exn_str (Boto b) = boto_str b"
| "exn_str (PyException []) = []"
| "exn_str (PyException [a]) = a"
| "exn_str (PyException (a # b # bs)) = ''('' @ join_comma (map py_repr (a # b # bs)) @ '')''"
| "exn_str EOFError = ''EOF when reading a line''"

subsection \<open>The EC2 client and the world\<close>

datatype target = NatGatewayId "string option" | GatewayId "string option"

datatype call =
    DescribeInstances
  | CreateInternetGateway
  | AttachInternetGateway string string
  | CreateSubnet string string
  | AllocateAddress
  | CreateNatGateway string string
  | WaitNatGatewayAvailable string
  | CreateRouteTable string
  | AssociateRouteTable string string
  | CreateRoute string string target

text \<open>The response of \<open>create_route\<close> is a dictionary; it is false exactly when empty.\<close>

type_synonym route_response = "(string \<times> bool) list"

record client =
  ec2_describe_instances :: "call list \<Rightarrow> boto_error + unit"
  ec2_create_internet_gateway :: "call list \<Rightarrow> boto_error + string"
  ec2_attach_internet_gateway :: "call list \<Rightarrow> string \<Rightarrow> string \<Rightarrow> boto_error + unit"
  ec2_create_subnet :: "call list \<Rightarrow> string \<Rightarrow> string \<Rightarrow> boto_error + string"
  ec2_allocate_address :: "call list \<Rightarrow> boto_error + string"
  ec2_create_nat_gateway :: "call list \<Rightarrow> string \<Rightarrow> string \<Rightarrow> boto_error + string"
  ec2_wait_nat_gateway_available :: "call list \<Rightarrow> string \<Rightarrow> boto_error + unit"
  ec2_create_route_table :: "call list \<Rightarrow> string \<Rightarrow> boto_error + string"
  ec2_associate_route_table :: "call list \<Rightarrow> string \<Rightarrow> string \<Rightarrow> boto_error + unit"
  ec2_create_route :: "call list \<Rightarrow> string \<Rightarrow> string \<Rightarrow> target \<Rightarrow> boto_error + route_response"

record world =
  stdin :: "string list"
  stdout :: "string list"
  calls :: "call list"
  failed :: "call list"
  slept :: nat

definition py_print :: "string \<Rightarrow> world \<Rightarrow> world" where
  "py_print s w = w\<lparr>stdout := stdout w @ [s]\<rparr>"

definition time_sleep :: "nat \<Rightarrow> world \<Rightarrow> world" where
  "time_sleep n w = w\<lparr>slept := slept w + n\<rparr>"

text \<open>\<open>input(prompt)\<close> writes the prompt and reads one line; at end of input it raises
  \<open>EOFError\<close>.\<close>

definition py_input :: "string \<Rightarrow> world \<Rightarrow> (exn + string) \<times> world" where
  "py_input prompt w =
     (case stdin w of
        [] \<Rightarrow> (Inl EOFError, w\<lparr>stdout := stdout w @ [prompt]\<rparr>)
      | l # ls \<Rightarrow> (Inr l, w\<lparr>stdin := ls, stdout := stdout w @ [prompt]\<rparr>))"

text \<open>A call on the client: the method answers from the calls made so far; the call
  is recorded, and recorded in \<open>failed\<close> as well when the answer is an exception.\<close>

definition invoke :: "call \<Rightarrow> (call list \<Rightarrow> boto_error + 'a) \<Rightarrow> world \<Rightarrow> (boto_error + 'a) \<times> world" where
  "invoke c m w =
     (case m (calls w) of
        Inl e \<Rightarrow> (Inl e, w\<lparr>calls := calls w @ [c], failed := failed w @ [c]\<rparr>)
      | Inr a \<Rightarrow> (Inr a, w\<lparr>calls := calls w @ [c]\<rparr>))"

subsection \<open>create\_client\<close>

text \<open>\<open>session\<close> is what \<open>boto3.Session().client('ec2')\<close> gives: a client, or the
  exception it raises.\<close>

definition create_client :: "boto_error + client \<Rightarrow> world \<Rightarrow> (exn + client) \<times> world" where
  "create_client session w =
     (let r = (case session of
                 Inl e \<Rightarrow> (Inl e, w)
               | Inr client \<Rightarrow>
                   (case invoke DescribeInstances (ec2_describe_instances client) w of
                      (Inl e, w1) \<Rightarrow> (Inl e, w1)
                    | (Inr _, w1) \<Rightarrow> (Inr client, w1)))
      in case r of
           (Inr client, w1) \<Rightarrow> (Inr client, w1)
         | (Inl (NoRegionError m), w1) \<Rightarrow>
             (Inl (PyException [''Error creating client; please run `aws configure` to set up your environment first.'']), w1)
         | (Inl (NoCredentialsError m), w1) \<Rightarrow>
             (Inl (PyException [''Error creating client; your AWS credentials were not found. Run `aws configure` to check.'']), w1)
         | (Inl (ClientError m), w1) \<Rightarrow>
             (Inl (PyException [''Error creating client; please check your credentials and permissions. Error was: '' @ m]), w1)
         | (Inl e, w1) \<Rightarrow> (Inl (Boto e), w1))"

subsection \<open>create\_subnet\<close>

definition create_subnet :: "client \<Rightarrow> string \<Rightarrow> string \<Rightarrow> world \<Rightarrow> (exn + string) \<times> world" where
  "create_subnet client cidr_blk vpc_id w =
     (case invoke (CreateSubnet vpc_id cidr_blk) (\<lambda>h. ec2_create_subnet client h vpc_id cidr_blk) w of
        (Inl (ClientError m), w1) \<Rightarrow> (Inl (PyException [''Error when creating subnet: {}'', m]), w1)
      | (Inl e, w1) \<Rightarrow> (Inl (Boto e), w1)
      | (Inr subnet_id, w1) \<Rightarrow>
          (Inr subnet_id, py_print (''Create subnet with subnetID '' @ subnet_id) w1))"

subsection \<open>setup\_nat\_gateway\<close>

text \<open>The function returns the gateway ID, or \<open>None\<close> when the second \<open>try\<close> block
  catches an exception: the handler prints and falls off the end of the function.\<close>

definition setup_nat_gateway :: "client \<Rightarrow> string \<Rightarrow> world \<Rightarrow> (exn + string option) \<times> world" where
  "setup_nat_gateway client subnet w =
     (case invoke AllocateAddress (ec2_allocate_address client) w of
        (Inl (ClientError m), w1) \<Rightarrow> (Inl (PyException [''Error allocating ip: '' @ m]), w1)
      | (Inl e, w1) \<Rightarrow> (Inl (Boto e), w1)
      | (Inr allocation, w1) \<Rightarrow>
          (let failed = (\<lambda>e w'.
                 (Inr None,
                  py_print (''Error returned when creating NAT Gateway Using subnet ID '' @ subnet
                            @ '', Allocation ID: '' @ allocation @ '': '' @ boto_str e @ [NL]) w'))
           in case invoke (CreateNatGateway subnet allocation)
                     (\<lambda>h. ec2_create_nat_gateway client h subnet allocation) w1 of
                (Inl e, w2) \<Rightarrow> failed e w2
              | (Inr nat_gateway_ids, w2) \<Rightarrow>
                  (let w3 = py_print (''Creating NAT gateway '' @ nat_gateway_ids @ ''...'' @ [NL]) w2
                   in case invoke (WaitNatGatewayAvailable nat_gateway_ids)
                             (\<lambda>h. ec2_wait_nat_gateway_available client h nat_gateway_ids) w3 of
                        (Inl e, w4) \<Rightarrow> failed e w4
                      | (Inr _, w4) \<Rightarrow>
                          (Inr (Some nat_gateway_ids), py_print (''Created NAT gateway'' @ [NL]) w4))))"

subsection \<open>create\_route\_table\<close>

definition create_route_table :: "client \<Rightarrow> string \<Rightarrow> string \<Rightarrow> world \<Rightarrow> (exn + string) \<times> world" where
  "create_route_table client vpc subnet w =
     (let wrap = (\<lambda>e. case e of
                    ClientError m \<Rightarrow> PyException [''Error returned when creating Route Table: '' @ m @ [NL]]
                  | _ \<Rightarrow> Boto e)
      in case invoke (CreateRouteTable vpc) (\<lambda>h. ec2_create_route_table client h vpc) w of
           (Inl e, w1) \<Rightarrow> (Inl (wrap e), w1)
         | (Inr route_table_id, w1) \<Rightarrow>
             (case invoke (AssociateRouteTable route_table_id subnet)
                     (\<lambda>h. ec2_associate_route_table client h route_table_id subnet) w1 of
                (Inl e, w2) \<Rightarrow> (Inl (wrap e), w2)
              | (Inr _, w2) \<Rightarrow> (Inr route_table_id, w2)))"

subsection \<open>create\_igw\<close>

definition create_igw :: "client \<Rightarrow> string \<Rightarrow> world \<Rightarrow> (exn + string) \<times> world" where
  "create_igw client vpc w =
     (let wrap = (\<lambda>e. case e of
                    ClientError m \<Rightarrow> PyException [''Could not create IGW. Error received: '' @ m]
                  | _ \<Rightarrow> Boto e)
      in case invoke CreateInternetGateway (ec2_create_internet_gateway client) w of
           (Inl e, w1) \<Rightarrow> (Inl (wrap e), w1)
         | (Inr igw, w1) \<Rightarrow>
             (case invoke (AttachInternetGateway igw vpc)
                     (\<lambda>h. ec2_attach_internet_gateway client h igw vpc) w1 of
                (Inl e, w2) \<Rightarrow> (Inl (wrap e), w2)
              | (Inr _, w2) \<Rightarrow> (Inr igw, w2)))"

subsection \<open>create\_route\<close>

definition inappropriate_inputs :: string where
  "inappropriate_inputs =
     ''Inappropriate inputs for create_route. Mode must be either '' @ [DQ] @ ''nat'' @ [DQ]
     @ '' or '' @ [DQ] @ ''igw'' @ [DQ] @ ''.''"

text \<open>The body of the \<open>try\<close> block, up to the response or the exception it raises.\<close>

definition create_route_try :: "client \<Rightarrow> string \<Rightarrow> string \<Rightarrow> string option \<Rightarrow> string \<Rightarrow> world
    \<Rightarrow> (exn + route_response) \<times> world" where
  "create_route_try client route_table destination gateway mode w =
     (if py_lower mode = ''nat'' then
        (case invoke (CreateRoute route_table destination (NatGatewayId gateway))
                (\<lambda>h. ec2_create_route client h route_table destination (NatGatewayId gateway)) w of
           (Inl e, w1) \<Rightarrow> (Inl (Boto e), w1)
         | (Inr route, w1) \<Rightarrow> (Inr route, w1))
      else if py_lower mode = ''igw'' then
        (case invoke (CreateRoute route_table destination (GatewayId gateway))
                (\<lambda>h. ec2_create_route client h route_table destination (GatewayId gateway)) w of
           (Inl e, w1) \<Rightarrow> (Inl (Boto e), w1)
         | (Inr route, w1) \<Rightarrow> (Inr route, w1))
      else
        (Inl (PyException [inappropriate_inputs]), w))"

definition route_error :: "string \<Rightarrow> string option \<Rightarrow> string \<Rightarrow> string \<Rightarrow> exn" where
  "route_error destination gateway route_table msg =
     PyException [''Error returned when creating a route to '' @ destination @ '', from '' @ str_opt gateway
                  @ '' using table '' @ route_table @ '': '' @ msg @ [NL]]"

definition recursion_msg :: string where
  "recursion_msg = ''maximum recursion depth exceeded''"

text \<open>
  The two handlers, \<open>except ClientError\<close> and \<open>except Exception\<close>, have the same body.
  On a message containing \<open>NotFound\<close> the function calls itself with mode \<open>'nat'\<close>.
  Nothing in the code counts the attempts: what ends the recursion is the recursion limit
  of the interpreter. \<open>room\<close> is the number of further nested calls of \<open>create_route\<close>,
  each with its call on the client, that fit under that limit when the function is
  entered; the call on the client from the function's own frame is taken to fit, as the
  calls of every other function of the script are. When a retry does not fit, the nested
  call is entered and its call on the client raises \<open>RecursionError\<close> inside the \<open>try\<close>
  block; its message holds no \<open>NotFound\<close>, so the second handler raises the exception
  that reports the failure with that message, and the exception passes through the
  handlers above it. That is the branch \<open>room = 0\<close>.
\<close>

function create_route :: "nat \<Rightarrow> client \<Rightarrow> string \<Rightarrow> string \<Rightarrow> string option \<Rightarrow> string \<Rightarrow> world
    \<Rightarrow> (exn + route_response) \<times> world" where
  "create_route room client route_table destination gateway mode w =
     (case create_route_try client route_table destination gateway mode w of
        (Inr route, w1) \<Rightarrow> (Inr route, py_print (''Route created'' @ [NL]) w1)
      | (Inl (Boto (ClientError m)), w1) \<Rightarrow>
          (if py_in ''NotFound'' m
           then (if room = 0
                 then (Inl (route_error destination gateway route_table recursion_msg),
                       time_sleep 5 (py_print (''Retrying...'' @ [NL]) w1))
                 else create_route (room - 1) client route_table destination gateway ''nat''
                        (time_sleep 5 (py_print (''Retrying...'' @ [NL]) w1)))
           else (Inl (route_error destination gateway route_table m), w1))
      | (Inl e, w1) \<Rightarrow>
          (if py_in ''NotFound'' (exn_str e)
           then (if room = 0
                 then (Inl (route_error destination gateway route_table recursion_msg),
                       time_sleep 5 (py_print (''Retrying...'' @ [NL]) w1))
                 else create_route (room - 1) client route_table destination gateway ''nat''
                        (time_sleep 5 (py_print (''Retrying...'' @ [NL]) w1)))
           else (Inl (route_error destination gateway route_table (exn_str e)), w1)))"
  by pat_completeness auto
termination
  by (relation "measure (\<lambda>(room, client, rt, d, g, mode, w). room)") auto

declare create_route.simps [simp del]

subsection \<open>The CIDR pattern\<close>

text \<open>
  The pattern of \<open>main\<close> is
  \<^verbatim>\<open>^([0-9]{1,3}\.){3}[0-9]{1,3}(\/([0-9]|[1-2][0-9]|3[0-2]))?$\<close>.
  A \<open>regex\<close> is the part between the anchors. \<open>rmatch r s\<close> lists what is left of \<open>s\<close>
  after each way of matching \<open>r\<close> at its start, in the order a backtracking matcher tries
  them. \<open>pattern.match\<close> starts at the beginning of the string, and \<open>$\<close> holds at the end
  of the string and just before a newline that ends the string.
\<close>

datatype regex =
    Range char char
  | Lit char
  | Seq regex regex
  | Alt regex regex
  | Opt regex
  | Times regex nat nat

definition in_range :: "char \<Rightarrow> char \<Rightarrow> char \<Rightarrow> bool" where
  "in_range a b c = ((of_char a :: nat) \<le> of_char c \<and> (of_char c :: nat) \<le> of_char b)"

fun regex_size :: "regex \<Rightarrow> nat" where
  "regex_size (Range a b) = 1"
| "regex_size (Lit a) = 1"
| "regex_size (Seq r1 r2) = Suc (regex_size r1 + regex_size r2)"
| "regex_size (Alt r1 r2) = Suc (regex_size r1 + regex_size r2)"
| "regex_size (Opt r) = Suc (regex_size r)"
| "regex_size (Times r lo hi) = Suc (regex_size r + hi)"

function rmatch :: "regex \<Rightarrow> string \<Rightarrow> string list" where
  "rmatch (Range a b) s = (case s of [] \<Rightarrow> [] | c # cs \<Rightarrow> if in_range a b c then [cs] else [])"
| "rmatch (Lit a) s = (case s of [] \<Rightarrow> [] | c # cs \<Rightarrow> if c = a then [cs] else [])"
| "rmatch (Seq r1 r2) s = concat (map (rmatch r2) (rmatch r1 s))"
| "rmatch (Alt r1 r2) s = rmatch r1 s @ rmatch r2 s"
| "rmatch (Opt r) s = rmatch r s @ [s]"
| "rmatch (Times r lo hi) s =
     (if hi = 0 then (if lo = 0 then [s] else [])
      else concat (map (rmatch (Times r (lo - 1) (hi - 1))) (rmatch r s)) @ (if lo = 0 then [s] else []))"
  by pat_completeness auto
termination
  by (relation "measure (\<lambda>(r, s). regex_size r)") auto

declare rmatch.simps(6) [simp del]

definition re_match :: "regex \<Rightarrow> string \<Rightarrow> bool" where
  "re_match r s = list_ex (\<lambda>rest. rest = [] \<or> rest = [NL]) (rmatch r s)"

definition digit :: regex where
  "digit = Range (CHR ''0'') (CHR ''9'')"

definition cidr_re :: regex where
  "cidr_re =
     Seq (Times (Seq (Times digit 1 3) (Lit (CHR ''.''))) 3 3)
       (Seq (Times digit 1 3)
          (Opt (Seq (Lit (CHR ''/''))
                  (Alt digit
                     (Alt (Seq (Range (CHR ''1'') (CHR ''2'')) digit)
                          (Seq (Lit (CHR ''3'')) (Range (CHR ''0'') (CHR ''2''))))))))"

subsection \<open>int() on a string\<close>

text \<open>
  \<open>int(s)\<close> strips white space, takes an optional sign, and then wants decimal digits,
  where one underscore may stand between two digits. Anything else raises
  \<open>ValueError\<close>, here \<open>None\<close>, and so does a string with more than 4300 digits, the limit
  of the interpreter for the conversion. The white space that \<open>int\<close> strips, below code
  point 256: tab, line feed, vertical tab, form feed, carriage return, space, next line
  (0x85) and no-break space (0xA0).
\<close>

definition is_space :: "char \<Rightarrow> bool" where
  "is_space c = ((of_char c :: nat) \<in> {9, 10, 11, 12, 13, 32, 133, 160})"

definition max_str_digits :: nat where
  "max_str_digits = 4300"

definition is_digit :: "char \<Rightarrow> bool" where
  "is_digit c = (48 \<le> (of_char c :: nat) \<and> (of_char c :: nat) \<le> 57)"

definition digit_val :: "char \<Rightarrow> nat" where
  "digit_val c = of_char c - 48"

definition py_strip :: "string \<Rightarrow> string" where
  "py_strip s = rev (dropWhile is_space (rev (dropWhile is_space s)))"

fun int_digits :: "nat \<Rightarrow> string \<Rightarrow> nat option" where
  "int_digits acc [] = Some acc"
| "int_digits acc (c # cs) =
     (if is_digit c then int_digits (10 * acc + digit_val c) cs
      else if c = CHR ''_'' then
        (case cs of
           [] \<Rightarrow> None
         | d # ds \<Rightarrow> if is_digit d then int_digits (10 * acc + digit_val d) ds else None)
      else None)"

definition int_body :: "string \<Rightarrow> nat option" where
  "int_body s = (case s of [] \<Rightarrow> None | c # cs \<Rightarrow> if is_digit c then int_digits (digit_val c) cs else None)"

definition py_int :: "string \<Rightarrow> int option" where
  "py_int s =
     (if max_str_digits < length (filter is_digit s) then None
      else case py_strip s of
        [] \<Rightarrow> None
      | c # cs \<Rightarrow>
          if c = CHR ''-'' then map_option (\<lambda>n. - int n) (int_body cs)
          else if c = CHR ''+'' then map_option int (int_body cs)
          else map_option int (int_body (c # cs)))"

subsection \<open>main\<close>

text \<open>Sequencing: an exception ends the run, a value goes to the rest of the function.\<close>

definition and_then :: "(exn + 'a) \<times> world \<Rightarrow> ('a \<Rightarrow> world \<Rightarrow> (exn + 'b) \<times> world)
    \<Rightarrow> (exn + 'b) \<times> world" where
  "and_then r k = (case r of (Inl e, w) \<Rightarrow> (Inl e, w) | (Inr a, w) \<Rightarrow> k a w)"

definition vpc_prompt :: string where
  "vpc_prompt = ''Enter the VPC ID of the Databricks VPC''"

definition cidr_prompt :: string where
  "cidr_prompt = ''Enter the CIDR range for the subnet, in '' @ [SQ] @ ''A.B'' @ [SQ] @ ''C'' @ [SQ]
                 @ ''D/XX'' @ [SQ] @ '' format''"

definition cidr_invalid :: string where
  "cidr_invalid = ''CIDR range format is invalid. Please enter a valid CIDR Range.''"

definition num_reprompt :: string where
  "num_reprompt = ''Number of routes must be convertible to int. Please enter a number.''"

definition dest_prompt :: "nat \<Rightarrow> string" where
  "dest_prompt i = ''Enter destination for route #'' @ str_nat i"

text \<open>The loop \<open>while not vpc\<close>: its body prints, reads a line and drops it; \<open>vpc\<close> is
  not assigned in the loop.\<close>

function vpc_loop :: "string \<Rightarrow> world \<Rightarrow> (exn + string) \<times> world" where
  "vpc_loop vpc w =
     (if vpc \<noteq> [] then (Inr vpc, w)
      else case py_input vpc_prompt (py_print ''Please provide a valid VPC ID.'' w) of
             (Inl e, w1) \<Rightarrow> (Inl e, w1)
           | (Inr _, w1) \<Rightarrow> vpc_loop vpc w1)"
  by pat_completeness auto
termination
  by (relation "measure (\<lambda>(vpc, w). length (stdin w))")
     (auto simp: py_input_def py_print_def split: list.splits)

declare vpc_loop.simps [simp del]

function cidr_loop :: "string \<Rightarrow> world \<Rightarrow> (exn + string) \<times> world" where
  "cidr_loop cidr w =
     (if re_match cidr_re cidr then (Inr cidr, w)
      else case py_input cidr_prompt (py_print cidr_invalid w) of
             (Inl e, w1) \<Rightarrow> (Inl e, w1)
           | (Inr cidr', w1) \<Rightarrow> cidr_loop cidr' w1)"
  by pat_completeness auto
termination
  by (relation "measure (\<lambda>(cidr, w). length (stdin w))")
     (auto simp: py_input_def py_print_def split: list.splits)

declare cidr_loop.simps [simp del]

text \<open>The loop \<open>while success == 0\<close> around \<open>int(num_routes)\<close>.\<close>

function num_loop :: "string \<Rightarrow> world \<Rightarrow> (exn + int) \<times> world" where
  "num_loop num_routes w =
     (case py_int num_routes of
        Some n \<Rightarrow> (Inr n, w)
      | None \<Rightarrow>
          (case py_input num_reprompt w of
             (Inl e, w1) \<Rightarrow> (Inl e, w1)
           | (Inr num_routes', w1) \<Rightarrow> num_loop num_routes' w1))"
  by pat_completeness auto
termination
  by (relation "measure (\<lambda>(n, w). length (stdin w))")
     (auto simp: py_input_def split: list.splits)

declare num_loop.simps [simp del]

function dest_loop :: "nat \<Rightarrow> string \<Rightarrow> world \<Rightarrow> (exn + string) \<times> world" where
  "dest_loop i route_dest w =
     (if re_match cidr_re route_dest then (Inr route_dest, w)
      else case py_input (dest_prompt i) (py_print (cidr_invalid @ [NL]) w) of
             (Inl e, w1) \<Rightarrow> (Inl e, w1)
           | (Inr route_dest', w1) \<Rightarrow> dest_loop i route_dest' w1)"
  by pat_completeness auto
termination
  by (relation "measure (\<lambda>(i, d, w). length (stdin w))")
     (auto simp: py_input_def py_print_def split: list.splits)

declare dest_loop.simps [simp del]

text \<open>The loop \<open>for i in range(num_routes)\<close>, from \<open>i\<close> on.\<close>

function routes_loop :: "nat \<Rightarrow> client \<Rightarrow> string \<Rightarrow> string option \<Rightarrow> nat \<Rightarrow> int \<Rightarrow> world
    \<Rightarrow> (exn + unit) \<times> world" where
  "routes_loop room client route_table nat_gateway i num_routes w =
     (if int i < num_routes then
        and_then (py_input (dest_prompt i) w) (\<lambda>route_dest0 w1.
        and_then (dest_loop i route_dest0 w1) (\<lambda>route_dest w2.
        and_then (create_route room client route_table route_dest nat_gateway ''nat'' w2) (\<lambda>success w3.
        routes_loop room client route_table nat_gateway (i + 1) num_routes
          (if success = [] then py_print (''Warning: Could not create route '' @ route_dest) w3 else w3))))
      else (Inr (), w))"
  by pat_completeness auto
termination
  by (relation "measure (\<lambda>(room, client, rt, g, i, n, w). nat (n - int i))") auto

declare routes_loop.simps [simp del]

text \<open>\<open>room\<close> is what the recursion limit leaves for the retries of \<open>create_route\<close> when
  \<open>main\<close> calls it.\<close>

definition main :: "nat \<Rightarrow> boto_error + client \<Rightarrow> world \<Rightarrow> (exn + unit) \<times> world" where
  "main room session w =
     and_then (create_client session w) (\<lambda>client w1.
     and_then (py_input vpc_prompt w1) (\<lambda>vpc0 w2.
     and_then (vpc_loop vpc0 w2) (\<lambda>vpc w3.
     and_then (py_input cidr_prompt w3) (\<lambda>cidr0 w4.
     and_then (cidr_loop cidr0 w4) (\<lambda>cidr w5.
     and_then (create_igw client vpc w5) (\<lambda>igw w6.
     and_then (create_subnet client cidr vpc w6) (\<lambda>subnet_id w7.
     and_then (setup_nat_gateway client subnet_id w7) (\<lambda>nat_gateway w8.
     and_then (create_route_table client vpc subnet_id w8) (\<lambda>route_table w9.
     and_then (create_route room client route_table ''0.0.0.0/0'' (Some igw) ''igw'' w9) (\<lambda>success w10.
     if success = [] then
       (Inl (PyException [''Could not create IGW route. Please check that IGW exists and is attached.'']), w10)
     else
     and_then (py_input ''How many routes need to be created?'' w10) (\<lambda>num_routes0 w11.
     and_then (num_loop num_routes0 w11) (\<lambda>num_routes w12.
     routes_loop room client route_table nat_gateway 0 num_routes w12))))))))))))"

section \<open>Vocabulary of the statements, and stub clients\<close>

subsection \<open>Attempts of create\_route\<close>

text \<open>The target that the first attempt of \<open>create_route\<close> sends for a mode, following its
  \<open>if\<close>/\<open>elif\<close>/\<open>else\<close>; \<open>None\<close> for a mode that is neither.\<close>

definition mode_target :: "string \<Rightarrow> string option \<Rightarrow> target option" where
  "mode_target mode gateway =
     (if py_lower mode = ''nat'' then Some (NatGatewayId gateway)
      else if py_lower mode = ''igw'' then Some (GatewayId gateway)
      else None)"

text \<open>An answer of the client that is an exception with \<open>NotFound\<close> in its message.\<close>

definition not_found :: "boto_error + 'a \<Rightarrow> bool" where
  "not_found r = (case r of Inl e \<Rightarrow> py_in ''NotFound'' (boto_str e) | Inr _ \<Rightarrow> False)"

text \<open>
  Attempt \<open>k\<close> of a request, counted from 0, when every earlier attempt met \<open>NotFound\<close>:
  the first attempt sends the target of the mode, every later one a NAT target.
  \<open>attempt_calls\<close> are the calls of the first \<open>k\<close> attempts, and \<open>attempt_answer\<close> is what
  the client answers to attempt \<open>k\<close> after them.
\<close>

definition attempt_target :: "target \<Rightarrow> string option \<Rightarrow> nat \<Rightarrow> target" where
  "attempt_target t gateway k = (if k = 0 then t else NatGatewayId gateway)"

definition attempt_calls :: "string \<Rightarrow> string \<Rightarrow> target \<Rightarrow> string option \<Rightarrow> nat \<Rightarrow> call list" where
  "attempt_calls route_table destination t gateway k =
     map (\<lambda>j. CreateRoute route_table destination (attempt_target t gateway j)) [0..<k]"

definition attempt_answer :: "client \<Rightarrow> world \<Rightarrow> string \<Rightarrow> string \<Rightarrow> target \<Rightarrow> string option \<Rightarrow> nat
    \<Rightarrow> boto_error + route_response" where
  "attempt_answer client w route_table destination t gateway k =
     ec2_create_route client (calls w @ attempt_calls route_table destination t gateway k)
       route_table destination (attempt_target t gateway k)"

text \<open>The world after an attempt with call \<open>c\<close> has met \<open>NotFound\<close>: the call is recorded
  as failed, \<open>Retrying...\<close> is printed, and five seconds pass.\<close>

definition retrying :: "call \<Rightarrow> world \<Rightarrow> world" where
  "retrying c w =
     time_sleep 5 (py_print (''Retrying...'' @ [NL]) (w\<lparr>calls := calls w @ [c], failed := failed w @ [c]\<rparr>))"

subsection \<open>Stub clients\<close>

text \<open>\<open>stub_client\<close> answers every call with success and fixed identifiers; the other
  stubs change one method of it. \<open>start ls\<close> is the world before the run, with the lines
  \<open>ls\<close> on standard input.\<close>

definition ok_route :: route_response where
  "ok_route = [(''Return'', True)]"

definition stub_client :: client where
  "stub_client =
     \<lparr>ec2_describe_instances = (\<lambda>h. Inr ()),
      ec2_create_internet_gateway = (\<lambda>h. Inr ''igw-1''),
      ec2_attach_internet_gateway = (\<lambda>h igw vpc. Inr ()),
      ec2_create_subnet = (\<lambda>h vpc cidr. Inr ''subnet-1''),
      ec2_allocate_address = (\<lambda>h. Inr ''eipalloc-1''),
      ec2_create_nat_gateway = (\<lambda>h subnet alloc. Inr ''nat-1''),
      ec2_wait_nat_gateway_available = (\<lambda>h nat. Inr ()),
      ec2_create_route_table = (\<lambda>h vpc. Inr ''rtb-1''),
      ec2_associate_route_table = (\<lambda>h rt subnet. Inr ()),
      ec2_create_route = (\<lambda>h rt d t. Inr ok_route)\<rparr>"

definition start :: "string list \<Rightarrow> world" where
  "start ls = \<lparr>stdin = ls, stdout = [], calls = [], failed = [], slept = 0\<rparr>"

fun is_create_route :: "call \<Rightarrow> bool" where
  "is_create_route (CreateRoute rt d t) = True"
| "is_create_route _ = False"

definition not_found_msg :: string where
  "not_found_msg = ''An error occurred (InvalidNatGatewayID.NotFound) when calling the CreateRoute operation''"

definition stub_not_found_times :: "nat \<Rightarrow> client" where
  "stub_not_found_times n =
     stub_client\<lparr>ec2_create_route :=
       (\<lambda>h rt d t. if length (filter is_create_route h) < n then Inl (ClientError not_found_msg)
                   else Inr ok_route)\<rparr>"

definition stub_always_not_found :: client where
  "stub_always_not_found = stub_client\<lparr>ec2_create_route := (\<lambda>h rt d t. Inl (ClientError not_found_msg))\<rparr>"

definition denied_msg :: string where
  "denied_msg = ''An error occurred (UnauthorizedOperation) when calling the CreateRoute operation''"

definition stub_denied :: client where
  "stub_denied = stub_client\<lparr>ec2_create_route := (\<lambda>h rt d t. Inl (ClientError denied_msg))\<rparr>"

definition stub_wait_fails :: client where
  "stub_wait_fails =
     stub_client\<lparr>ec2_wait_nat_gateway_available :=
       (\<lambda>h nat. Inl (WaiterError ''Waiter NatGatewayAvailable failed: Max attempts exceeded''))\<rparr>"


definition stub_route_denied :: "string \<Rightarrow> client" where
  "stub_route_denied dest =
     stub_client\<lparr>ec2_create_route :=
       (\<lambda>h rt d t. if d = dest then Inl (ClientError denied_msg) else Inr ok_route)\<rparr>"

subsection \<open>Numerals\<close>

text \<open>\<open>str(z)\<close> for an integer.\<close>

definition str_int :: "int \<Rightarrow> string" where
  "str_int z = (if z < 0 then CHR ''-'' # str_nat (nat (- z)) else str_nat (nat z))"

subsection \<open>The language of a pattern\<close>

text \<open>The strings a pattern matches in full, as a set: the reference against which the
  matcher \<open>rmatch\<close> is proved. \<open>lpow A k\<close> are the concatenations of \<open>k\<close> strings of \<open>A\<close>.\<close>

fun lpow :: "string set \<Rightarrow> nat \<Rightarrow> string set" where
  "lpow A 0 = {[]}"
| "lpow A (Suc k) = {u @ v | u v. u \<in> A \<and> v \<in> lpow A k}"

fun lang :: "regex \<Rightarrow> string set" where
  "lang (Range a b) = {[c] | c. in_range a b c}"
| "lang (Lit a) = {[a]}"
| "lang (Seq r1 r2) = {u @ v | u v. u \<in> lang r1 \<and> v \<in> lang r2}"
| "lang (Alt r1 r2) = lang r1 \<union> lang r2"
| "lang (Opt r) = insert [] (lang r)"
| "lang (Times r lo hi) = (\<Union>k\<in>{lo..hi}. lpow (lang r) k)"

text \<open>One to three decimal digits.\<close>

definition octet :: "string \<Rightarrow> bool" where
  "octet u = (u \<noteq> [] \<and> length u \<le> 3 \<and> list_all is_digit u)"

subsection \<open>The validator as the specification words it\<close>

text \<open>
  For the comparison with the claim only, and following the specification's words, not the
  source: a string is accepted when it matches
  \<^verbatim>\<open>^(\d{1,3}\.){3}\d{1,3}(/\d{1,2})?$\<close> and its mask, the number written after the slash,
  is at most 32. \<open>spec_mask\<close> is that number, 0 when there is no slash.
\<close>

definition spec_cidr_re :: regex where
  "spec_cidr_re =
     Seq (Times (Seq (Times digit 1 3) (Lit (CHR ''.''))) 3 3)
       (Seq (Times digit 1 3)
          (Opt (Seq (Lit (CHR ''/'')) (Times digit 1 2))))"

definition spec_mask :: "string \<Rightarrow> nat" where
  "spec_mask s =
     foldl (\<lambda>v c. 10 * v + digit_val c) 0
       (takeWhile is_digit (drop 1 (dropWhile (\<lambda>c. c \<noteq> CHR ''/'') s)))"

definition spec_cidr_accepts :: "string \<Rightarrow> bool" where
  "spec_cidr_accepts s = (re_match spec_cidr_re s \<and> spec_mask s \<le> 32)"

section \<open>Properties\<close>

subsection \<open>create\_route\<close>

lemma lower_nat: "py_lower ''nat'' = ''nat''"
  by code_simp

lemma lower_igw: "py_lower ''igw'' = ''igw''"
  by code_simp

lemma mode_target_nat: "mode_target ''nat'' g = Some (NatGatewayId g)"
  by (simp add: mode_target_def lower_nat)

lemma mode_target_igw: "mode_target ''igw'' g = Some (GatewayId g)"
  by (simp add: mode_target_def lower_igw)

lemma create_route_try_target:
  "mode_target mode g = Some t \<Longrightarrow>
   create_route_try client rt d g mode w =
     (case ec2_create_route client (calls w) rt d t of
        Inl e \<Rightarrow> (Inl (Boto e), w\<lparr>calls := calls w @ [CreateRoute rt d t],
                                    failed := failed w @ [CreateRoute rt d t]\<rparr>)
      | Inr r \<Rightarrow> (Inr r, w\<lparr>calls := calls w @ [CreateRoute rt d t]\<rparr>))"
  by (auto simp: mode_target_def create_route_try_def invoke_def split: sum.splits if_splits)

lemma create_route_try_invalid:
  "mode_target mode g = None \<Longrightarrow>
   create_route_try client rt d g mode w = (Inl (PyException [inappropriate_inputs]), w)"
  by (auto simp: mode_target_def create_route_try_def split: if_splits)

lemma create_route_unfold:
  "create_route room client rt d g mode w =
     (case create_route_try client rt d g mode w of
        (Inr route, w1) \<Rightarrow> (Inr route, py_print (''Route created'' @ [NL]) w1)
      | (Inl e, w1) \<Rightarrow>
          if py_in ''NotFound'' (exn_str e)
          then (if room = 0
                then (Inl (route_error d g rt recursion_msg),
                      time_sleep 5 (py_print (''Retrying...'' @ [NL]) w1))
                else create_route (room - 1) client rt d g ''nat''
                       (time_sleep 5 (py_print (''Retrying...'' @ [NL]) w1)))
          else (Inl (route_error d g rt (exn_str e)), w1))"
  by (subst create_route.simps) (simp split: prod.splits sum.splits exn.splits boto_error.splits)

lemma create_route_ok:
  "mode_target mode g = Some t \<Longrightarrow> ec2_create_route client (calls w) rt d t = Inr r \<Longrightarrow>
   create_route room client rt d g mode w =
     (Inr r, py_print (''Route created'' @ [NL]) (w\<lparr>calls := calls w @ [CreateRoute rt d t]\<rparr>))"
  by (subst create_route_unfold) (simp add: create_route_try_target)

lemma create_route_fail:
  "mode_target mode g = Some t \<Longrightarrow> ec2_create_route client (calls w) rt d t = Inl e \<Longrightarrow>
   \<not> py_in ''NotFound'' (boto_str e) \<Longrightarrow>
   create_route room client rt d g mode w =
     (Inl (route_error d g rt (boto_str e)),
      w\<lparr>calls := calls w @ [CreateRoute rt d t], failed := failed w @ [CreateRoute rt d t]\<rparr>)"
  by (subst create_route_unfold) (simp add: create_route_try_target)

lemma create_route_retry:
  "mode_target mode g = Some t \<Longrightarrow> ec2_create_route client (calls w) rt d t = Inl e \<Longrightarrow>
   py_in ''NotFound'' (boto_str e) \<Longrightarrow>
   create_route (Suc room) client rt d g mode w =
     create_route room client rt d g ''nat'' (retrying (CreateRoute rt d t) w)"
  by (subst create_route_unfold) (simp add: create_route_try_target retrying_def)

lemma create_route_no_room:
  "mode_target mode g = Some t \<Longrightarrow> ec2_create_route client (calls w) rt d t = Inl e \<Longrightarrow>
   py_in ''NotFound'' (boto_str e) \<Longrightarrow>
   create_route 0 client rt d g mode w =
     (Inl (route_error d g rt recursion_msg), retrying (CreateRoute rt d t) w)"
  by (subst create_route_unfold) (simp add: create_route_try_target retrying_def)

lemma retrying_fields:
  "calls (retrying c w) = calls w @ [c]" "failed (retrying c w) = failed w @ [c]"
  "slept (retrying c w) = slept w + 5" "stdin (retrying c w) = stdin w"
  by (simp_all add: retrying_def time_sleep_def py_print_def)

lemma attempt_calls_0: "attempt_calls rt d t g 0 = []"
  by (simp add: attempt_calls_def)

lemma attempt_calls_Suc_front:
  "attempt_calls rt d t g (Suc k) = CreateRoute rt d t # attempt_calls rt d (NatGatewayId g) g k"
  by (simp add: attempt_calls_def attempt_target_def upt_conv_Cons map_Suc_upt [symmetric] del: upt_Suc)

lemma attempt_calls_nat: "attempt_calls rt d (NatGatewayId g) g k = replicate k (CreateRoute rt d (NatGatewayId g))"
  by (induction k) (simp_all add: attempt_calls_def attempt_target_def replicate_append_same)

lemma attempt_answer_0: "attempt_answer client w rt d t g 0 = ec2_create_route client (calls w) rt d t"
  by (simp add: attempt_answer_def attempt_calls_def attempt_target_def)

lemma attempt_answer_Suc:
  "attempt_answer client w rt d t g (Suc k) =
   attempt_answer client (retrying (CreateRoute rt d t) w) rt d (NatGatewayId g) g k"
  by (simp add: attempt_answer_def attempt_calls_Suc_front attempt_target_def retrying_fields)

lemma not_found_first:
  assumes "not_found (attempt_answer client w rt d t g 0)"
  obtains e where "ec2_create_route client (calls w) rt d t = Inl e" "py_in ''NotFound'' (boto_str e)"
  using assms by (auto simp: attempt_answer_0 not_found_def split: sum.splits)

text \<open>The first \<open>n\<close> attempts meet \<open>NotFound\<close>, the next one does not, and there is room
  for them.\<close>

lemma create_route_returns:
  "mode_target mode g = Some t \<Longrightarrow> n \<le> room \<Longrightarrow>
   \<forall>k<n. not_found (attempt_answer client w rt d t g k) \<Longrightarrow>
   \<not> not_found (attempt_answer client w rt d t g n) \<Longrightarrow>
   \<exists>w'. create_route room client rt d g mode w =
           (case attempt_answer client w rt d t g n of
              Inr route \<Rightarrow> Inr route
            | Inl e \<Rightarrow> Inl (route_error d g rt (boto_str e)), w')
        \<and> calls w' = calls w @ attempt_calls rt d t g (Suc n)
        \<and> slept w' = slept w + 5 * n"
proof (induction n arbitrary: room mode t w)
  case 0
  show ?case
  proof (cases "ec2_create_route client (calls w) rt d t")
    case (Inl e)
    with 0 have "\<not> py_in ''NotFound'' (boto_str e)"
      by (simp add: attempt_answer_0 not_found_def)
    with 0 Inl show ?thesis
      by (simp add: create_route_fail attempt_answer_0 attempt_calls_Suc_front attempt_calls_0)
  next
    case (Inr r)
    with 0 show ?thesis
      by (simp add: create_route_ok attempt_answer_0 attempt_calls_Suc_front attempt_calls_0
          py_print_def)
  qed
next
  case (Suc n)
  let ?w = "retrying (CreateRoute rt d t) w"
  from Suc.prems(2) obtain room' where room: "room = Suc room'" "n \<le> room'"
    by (cases room) auto
  from Suc.prems(3) have "not_found (attempt_answer client w rt d t g 0)"
    by simp
  then obtain e where e: "ec2_create_route client (calls w) rt d t = Inl e"
    and nf: "py_in ''NotFound'' (boto_str e)"
    by (rule not_found_first)
  have step: "create_route room client rt d g mode w = create_route room' client rt d g ''nat'' ?w"
    unfolding room(1) using Suc.prems(1) e nf by (rule create_route_retry)
  have a: "\<forall>k<n. not_found (attempt_answer client ?w rt d (NatGatewayId g) g k)"
    using Suc.prems(3) by (simp add: attempt_answer_Suc [symmetric])
  have b: "\<not> not_found (attempt_answer client ?w rt d (NatGatewayId g) g n)"
    using Suc.prems(4) by (simp add: attempt_answer_Suc)
  from Suc.IH [OF mode_target_nat room(2) a b] obtain w' where
    w': "create_route room' client rt d g ''nat'' ?w =
           (case attempt_answer client ?w rt d (NatGatewayId g) g n of
              Inr route \<Rightarrow> Inr route
            | Inl e \<Rightarrow> Inl (route_error d g rt (boto_str e)), w')"
      "calls w' = calls ?w @ attempt_calls rt d (NatGatewayId g) g (Suc n)"
      "slept w' = slept ?w + 5 * n"
    by blast
  have "calls w' = calls w @ attempt_calls rt d t g (Suc (Suc n))"
    using w'(2) by (simp add: attempt_calls_Suc_front [of rt d t g "Suc n"] retrying_fields)
  moreover have "slept w' = slept w + 5 * Suc n"
    using w'(3) by (simp add: retrying_fields)
  ultimately show ?case
    using w'(1) step by (simp add: attempt_answer_Suc [of client w rt d t g n])
qed

text \<open>Every attempt that fits meets \<open>NotFound\<close>.\<close>

lemma create_route_exhausts:
  "mode_target mode g = Some t \<Longrightarrow>
   \<forall>k\<le>room. not_found (attempt_answer client w rt d t g k) \<Longrightarrow>
   \<exists>w'. create_route room client rt d g mode w = (Inl (route_error d g rt recursion_msg), w')
        \<and> calls w' = calls w @ attempt_calls rt d t g (Suc room)
        \<and> slept w' = slept w + 5 * Suc room"
proof (induction room arbitrary: mode t w)
  case 0
  then have "not_found (attempt_answer client w rt d t g 0)"
    by simp
  then obtain e where e: "ec2_create_route client (calls w) rt d t = Inl e"
    and nf: "py_in ''NotFound'' (boto_str e)"
    by (rule not_found_first)
  show ?case
    by (simp add: create_route_no_room [OF "0.prems"(1) e nf] retrying_fields
        attempt_calls_Suc_front attempt_calls_0)
next
  case (Suc room)
  let ?w = "retrying (CreateRoute rt d t) w"
  from Suc.prems(2) have "not_found (attempt_answer client w rt d t g 0)"
    by simp
  then obtain e where e: "ec2_create_route client (calls w) rt d t = Inl e"
    and nf: "py_in ''NotFound'' (boto_str e)"
    by (rule not_found_first)
  have step: "create_route (Suc room) client rt d g mode w = create_route room client rt d g ''nat'' ?w"
    using Suc.prems(1) e nf by (rule create_route_retry)
  have a: "\<forall>k\<le>room. not_found (attempt_answer client ?w rt d (NatGatewayId g) g k)"
    using Suc.prems(2) by (simp add: attempt_answer_Suc [symmetric])
  from Suc.IH [OF mode_target_nat a] obtain w' where
    w': "create_route room client rt d g ''nat'' ?w = (Inl (route_error d g rt recursion_msg), w')"
      "calls w' = calls ?w @ attempt_calls rt d (NatGatewayId g) g (Suc room)"
      "slept w' = slept ?w + 5 * Suc room"
    by blast
  have "calls w' = calls w @ attempt_calls rt d t g (Suc (Suc room))"
    using w'(2) by (simp add: attempt_calls_Suc_front [of rt d t g "Suc room"] retrying_fields)
  moreover have "slept w' = slept w + 5 * Suc (Suc room)"
    using w'(3) by (simp add: retrying_fields)
  ultimately show ?case
    using w'(1) step by simp
qed

text \<open>The calls of any request with a valid mode: the call of the mode, then NAT calls
  only, at most \<open>room\<close> of them. Only create-route calls are added to the failed calls, and
  every retry has slept.\<close>

lemma create_route_trace:
  "mode_target mode g = Some t \<Longrightarrow>
   \<exists>k fs. k \<le> room
     \<and> calls (snd (create_route room client rt d g mode w)) =
         calls w @ CreateRoute rt d t # replicate k (CreateRoute rt d (NatGatewayId g))
     \<and> failed (snd (create_route room client rt d g mode w)) = failed w @ fs
     \<and> list_all is_create_route fs \<and> (k = 0 \<or> CreateRoute rt d t \<in> set fs)
     \<and> slept w + 5 * k \<le> slept (snd (create_route room client rt d g mode w))"
proof (induction room arbitrary: mode t w)
  case 0
  show ?case
  proof (cases "ec2_create_route client (calls w) rt d t")
    case (Inr r)
    then show ?thesis
      by (simp add: create_route_ok [OF "0.prems"] py_print_def)
  next
    case (Inl e)
    show ?thesis
    proof (cases "py_in ''NotFound'' (boto_str e)")
      case False
      then show ?thesis
        by (simp add: create_route_fail [OF "0.prems" Inl])
    next
      case True
      then show ?thesis
        by (simp add: create_route_no_room [OF "0.prems" Inl] retrying_fields)
    qed
  qed
next
  case (Suc room)
  let ?c = "CreateRoute rt d t" and ?n = "CreateRoute rt d (NatGatewayId g)"
  show ?case
  proof (cases "ec2_create_route client (calls w) rt d t")
    case (Inr r)
    then show ?thesis
      by (simp add: create_route_ok [OF Suc.prems] py_print_def)
  next
    case (Inl e)
    show ?thesis
    proof (cases "py_in ''NotFound'' (boto_str e)")
      case False
      then show ?thesis
        by (simp add: create_route_fail [OF Suc.prems Inl])
    next
      case True
      let ?w = "retrying ?c w"
      let ?r = "create_route room client rt d g ''nat'' ?w"
      have step: "create_route (Suc room) client rt d g mode w = ?r"
        using Suc.prems Inl True by (rule create_route_retry)
      from Suc.IH [OF mode_target_nat, of ?w] obtain k fs where k: "k \<le> room"
        "calls (snd ?r) = calls ?w @ ?n # replicate k ?n"
        "failed (snd ?r) = failed ?w @ fs" "list_all is_create_route fs"
        "slept ?w + 5 * k \<le> slept (snd ?r)"
        by blast
      have "Suc k = 0 \<or> ?c \<in> set (?c # fs)"
        by simp
      moreover
      have "Suc k \<le> Suc room"
        using k(1) by simp
      moreover have "calls (snd ?r) = calls w @ ?c # replicate (Suc k) ?n"
        using k(2) by (simp add: retrying_fields)
      moreover have "failed (snd ?r) = failed w @ (?c # fs)"
        using k(3) by (simp add: retrying_fields)
      moreover have "list_all is_create_route (?c # fs)"
        using k(4) by simp
      moreover have "slept w + 5 * Suc k \<le> slept (snd ?r)"
        using k(5) by (simp add: retrying_fields)
      ultimately show ?thesis
        unfolding step by blast
    qed
  qed
qed
text \<open>
  Claim C10. A mode that is not \<open>nat\<close> or \<open>igw\<close> after lower-casing makes \<open>create_route\<close>
  raise without any call on the client: the world is returned as it was, and the
  result is the exception built from the message about inappropriate inputs. A mode that
  lower-cases to \<open>nat\<close> or to \<open>igw\<close> is accepted: the first thing \<open>create_route\<close> adds to the
  calls on the client is the create-route call with the NAT or the gateway target (any
  further call is a retry with the NAT target), and when the client answers that call
  with a response, \<open>create_route\<close> returns that response after this one call.
  \<open>NAT\<close>, \<open>Nat\<close>, \<open>IGW\<close> and \<open>Igw\<close> are such modes.
\<close>

theorem create_route_mode_check:
  "(py_lower mode \<noteq> ''nat'' \<and> py_lower mode \<noteq> ''igw'' \<longrightarrow>
      create_route room client rt d g mode w = (Inl (route_error d g rt inappropriate_inputs), w))
   \<and> (py_lower mode = ''nat'' \<or> mode \<in> {''NAT'', ''Nat''} \<longrightarrow>
      (\<exists>k. calls (snd (create_route room client rt d g mode w)) =
              calls w @ CreateRoute rt d (NatGatewayId g) # replicate k (CreateRoute rt d (NatGatewayId g)))
      \<and> (\<forall>r. ec2_create_route client (calls w) rt d (NatGatewayId g) = Inr r \<longrightarrow>
             create_route room client rt d g mode w =
               (Inr r, py_print (''Route created'' @ [NL])
                         (w\<lparr>calls := calls w @ [CreateRoute rt d (NatGatewayId g)]\<rparr>))))
   \<and> (py_lower mode = ''igw'' \<or> mode \<in> {''IGW'', ''Igw''} \<longrightarrow>
      (\<exists>k. calls (snd (create_route room client rt d g mode w)) =
              calls w @ CreateRoute rt d (GatewayId g) # replicate k (CreateRoute rt d (NatGatewayId g)))
      \<and> (\<forall>r. ec2_create_route client (calls w) rt d (GatewayId g) = Inr r \<longrightarrow>
             create_route room client rt d g mode w =
               (Inr r, py_print (''Route created'' @ [NL])
                         (w\<lparr>calls := calls w @ [CreateRoute rt d (GatewayId g)]\<rparr>))))"
proof -
  have a: "create_route room client rt d g mode w = (Inl (route_error d g rt inappropriate_inputs), w)"
    if "py_lower mode \<noteq> ''nat''" "py_lower mode \<noteq> ''igw''"
  proof -
    have "mode_target mode g = None"
      using that by (simp add: mode_target_def)
    moreover have "\<not> py_in ''NotFound'' inappropriate_inputs"
      by code_simp
    ultimately show ?thesis
      by (subst create_route_unfold) (simp add: create_route_try_invalid)
  qed
  have valid: "(\<exists>k. calls (snd (create_route room client rt d g mode w)) =
              calls w @ CreateRoute rt d t # replicate k (CreateRoute rt d (NatGatewayId g)))
      \<and> (\<forall>r. ec2_create_route client (calls w) rt d t = Inr r \<longrightarrow>
             create_route room client rt d g mode w =
               (Inr r, py_print (''Route created'' @ [NL]) (w\<lparr>calls := calls w @ [CreateRoute rt d t]\<rparr>)))"
    if "mode_target mode g = Some t" for t
    using create_route_trace [OF that, of room client rt d w] create_route_ok [OF that]
    by blast
  have low: "py_lower ''NAT'' = ''nat''" "py_lower ''Nat'' = ''nat''"
    "py_lower ''IGW'' = ''igw''" "py_lower ''Igw'' = ''igw''"
    by code_simp+
  have ni: "''nat'' \<noteq> ''igw''"
    by simp
  have n: "mode_target mode g = Some (NatGatewayId g)" if "py_lower mode = ''nat'' \<or> mode \<in> {''NAT'', ''Nat''}"
    using that low by (auto simp: mode_target_def)
  have i: "mode_target mode g = Some (GatewayId g)" if "py_lower mode = ''igw'' \<or> mode \<in> {''IGW'', ''Igw''}"
    using that low ni by (auto simp: mode_target_def)
  show ?thesis
    using a valid [OF n] valid [OF i] by blast
qed

theorem create_route_mode_check_witness:
  "create_route 990 stub_client ''rtb-1'' ''10.0.0.0/8'' (Some ''nat-1'') ''peering'' (start []) =
     (Inl (route_error ''10.0.0.0/8'' (Some ''nat-1'') ''rtb-1'' inappropriate_inputs), start [])
   \<and> create_route 990 stub_client ''rtb-1'' ''10.0.0.0/8'' (Some ''nat-1'') ''NAT'' (start []) =
       (Inr ok_route,
        \<lparr>stdin = [], stdout = [''Route created'' @ [NL]],
         calls = [CreateRoute ''rtb-1'' ''10.0.0.0/8'' (NatGatewayId (Some ''nat-1''))],
         failed = [], slept = 0\<rparr>)
   \<and> create_route 990 stub_client ''rtb-1'' ''0.0.0.0/0'' (Some ''igw-1'') ''Igw'' (start []) =
       (Inr ok_route,
        \<lparr>stdin = [], stdout = [''Route created'' @ [NL]],
         calls = [CreateRoute ''rtb-1'' ''0.0.0.0/0'' (GatewayId (Some ''igw-1''))],
         failed = [], slept = 0\<rparr>)"
proof -
  have "py_lower ''peering'' \<noteq> ''nat''" "py_lower ''peering'' \<noteq> ''igw''"
    by code_simp+
  moreover have "ec2_create_route stub_client (calls (start [])) rt d t = Inr ok_route" for rt d t
    by (simp add: stub_client_def)
  ultimately show ?thesis
    using create_route_mode_check [of "''peering''" 990 stub_client "''rtb-1''" "''10.0.0.0/8''" "Some ''nat-1''" "start []"]
      create_route_mode_check [of "''NAT''" 990 stub_client "''rtb-1''" "''10.0.0.0/8''" "Some ''nat-1''" "start []"]
      create_route_mode_check [of "''Igw''" 990 stub_client "''rtb-1''" "''0.0.0.0/0''" "Some ''igw-1''" "start []"]
    by (simp add: start_def py_print_def)
qed

text \<open>
  Claim C6. When the call of the first attempt raises an exception whose message does not
  contain \<open>NotFound\<close>, \<open>create_route\<close> returns at once with the exception that reports the
  failure: exactly one call has been added to the calls on the client, nothing was
  printed and no time was spent sleeping.
\<close>

theorem create_route_other_error:
  assumes "mode_target mode gateway = Some t"
    and "ec2_create_route client (calls w) route_table destination t = Inl e"
    and "\<not> py_in ''NotFound'' (boto_str e)"
  shows "create_route room client route_table destination gateway mode w =
           (Inl (route_error destination gateway route_table (boto_str e)),
            w\<lparr>calls := calls w @ [CreateRoute route_table destination t],
              failed := failed w @ [CreateRoute route_table destination t]\<rparr>)"
  using assms by (rule create_route_fail)

theorem create_route_other_error_witness:
  "mode_target ''nat'' (Some ''nat-1'') = Some (NatGatewayId (Some ''nat-1''))
   \<and> ec2_create_route stub_denied (calls (start [])) ''rtb-1'' ''10.0.0.0/8'' (NatGatewayId (Some ''nat-1''))
       = Inl (ClientError denied_msg)
   \<and> \<not> py_in ''NotFound'' (boto_str (ClientError denied_msg))
   \<and> create_route 990 stub_denied ''rtb-1'' ''10.0.0.0/8'' (Some ''nat-1'') ''nat'' (start []) =
       (Inl (route_error ''10.0.0.0/8'' (Some ''nat-1'') ''rtb-1'' denied_msg),
        \<lparr>stdin = [], stdout = [], calls = [CreateRoute ''rtb-1'' ''10.0.0.0/8'' (NatGatewayId (Some ''nat-1''))],
         failed = [CreateRoute ''rtb-1'' ''10.0.0.0/8'' (NatGatewayId (Some ''nat-1''))], slept = 0\<rparr>)"
proof -
  have a: "mode_target ''nat'' (Some ''nat-1'') = Some (NatGatewayId (Some ''nat-1''))"
    by (rule mode_target_nat)
  have b: "ec2_create_route stub_denied (calls (start [])) ''rtb-1'' ''10.0.0.0/8'' (NatGatewayId (Some ''nat-1''))
       = Inl (ClientError denied_msg)"
    by (simp add: stub_denied_def)
  have c: "\<not> py_in ''NotFound'' (boto_str (ClientError denied_msg))"
    by code_simp
  show ?thesis
    using a b c create_route_other_error [OF a b c, of 990] by (simp add: start_def)
qed

text \<open>
  Claim C7. When the call of the first attempt of \<open>create_route\<close> raises an exception with
  \<open>NotFound\<close> in its message and a retry fits, the second call that \<open>create_route\<close> makes
  on the client is the create-route call with the NAT target, whatever the target of
  the failed attempt was, and so is every call after it; at least five seconds have been
  slept when \<open>create_route\<close> returns. A request with mode \<open>igw\<close> that meets \<open>NotFound\<close> once
  is retried with the NAT target.
\<close>

theorem create_route_retry_targets_nat:
  assumes "mode_target mode gateway = Some t"
    and "ec2_create_route client (calls w) route_table destination t = Inl e"
    and "py_in ''NotFound'' (boto_str e)"
    and "0 < room"
  shows "\<exists>k. calls (snd (create_route room client route_table destination gateway mode w)) =
               calls w @ [CreateRoute route_table destination t,
                          CreateRoute route_table destination (NatGatewayId gateway)]
                 @ replicate k (CreateRoute route_table destination (NatGatewayId gateway))
             \<and> slept w + 5 \<le> slept (snd (create_route room client route_table destination gateway mode w))"
proof -
  let ?w = "retrying (CreateRoute route_table destination t) w"
  from assms(4) obtain room' where room: "room = Suc room'"
    by (cases room) auto
  have step: "create_route room client route_table destination gateway mode w =
              create_route room' client route_table destination gateway ''nat'' ?w"
    unfolding room using assms(1-3) by (rule create_route_retry)
  from create_route_trace [OF mode_target_nat, of room' client route_table destination gateway ?w]
  show ?thesis
    unfolding step by (auto simp: retrying_fields)
qed

theorem create_route_retry_targets_nat_witness:
  "mode_target ''igw'' (Some ''igw-1'') = Some (GatewayId (Some ''igw-1''))
   \<and> ec2_create_route (stub_not_found_times 1) (calls (start [])) ''rtb-1'' ''0.0.0.0/0'' (GatewayId (Some ''igw-1''))
       = Inl (ClientError not_found_msg)
   \<and> py_in ''NotFound'' (boto_str (ClientError not_found_msg))
   \<and> (0::nat) < 990
   \<and> (\<exists>k. calls (snd (create_route 990 (stub_not_found_times 1) ''rtb-1'' ''0.0.0.0/0'' (Some ''igw-1'') ''igw''
                         (start []))) =
            calls (start []) @ [CreateRoute ''rtb-1'' ''0.0.0.0/0'' (GatewayId (Some ''igw-1'')),
                                CreateRoute ''rtb-1'' ''0.0.0.0/0'' (NatGatewayId (Some ''igw-1''))]
              @ replicate k (CreateRoute ''rtb-1'' ''0.0.0.0/0'' (NatGatewayId (Some ''igw-1'')))
          \<and> slept (start []) + 5 \<le>
              slept (snd (create_route 990 (stub_not_found_times 1) ''rtb-1'' ''0.0.0.0/0'' (Some ''igw-1'') ''igw''
                            (start []))))
   \<and> create_route 990 (stub_not_found_times 1) ''rtb-1'' ''0.0.0.0/0'' (Some ''igw-1'') ''igw'' (start []) =
       (Inr ok_route,
        \<lparr>stdin = [], stdout = [''Retrying...'' @ [NL], ''Route created'' @ [NL]],
         calls = [CreateRoute ''rtb-1'' ''0.0.0.0/0'' (GatewayId (Some ''igw-1'')),
                  CreateRoute ''rtb-1'' ''0.0.0.0/0'' (NatGatewayId (Some ''igw-1''))],
         failed = [CreateRoute ''rtb-1'' ''0.0.0.0/0'' (GatewayId (Some ''igw-1''))], slept = 5\<rparr>)"
proof -
  have a: "mode_target ''igw'' (Some ''igw-1'') = Some (GatewayId (Some ''igw-1''))"
    by (rule mode_target_igw)
  have b: "ec2_create_route (stub_not_found_times 1) (calls (start [])) ''rtb-1'' ''0.0.0.0/0'' (GatewayId (Some ''igw-1''))
       = Inl (ClientError not_found_msg)"
    by (simp add: stub_not_found_times_def start_def)
  have c: "py_in ''NotFound'' (boto_str (ClientError not_found_msg))"
    by code_simp
  have d: "(0::nat) < 990"
    by simp
  have e: "create_route 990 (stub_not_found_times 1) ''rtb-1'' ''0.0.0.0/0'' (Some ''igw-1'') ''igw'' (start []) =
       (Inr ok_route,
        \<lparr>stdin = [], stdout = [''Retrying...'' @ [NL], ''Route created'' @ [NL]],
         calls = [CreateRoute ''rtb-1'' ''0.0.0.0/0'' (GatewayId (Some ''igw-1'')),
                  CreateRoute ''rtb-1'' ''0.0.0.0/0'' (NatGatewayId (Some ''igw-1''))],
         failed = [CreateRoute ''rtb-1'' ''0.0.0.0/0'' (GatewayId (Some ''igw-1''))], slept = 5\<rparr>)"
    by code_simp
  from a b c d create_route_retry_targets_nat [OF a b c d] e show ?thesis
    by blast
qed

text \<open>
  Claim C1, as amended. \<open>create_route\<close> retries after every attempt that meets \<open>NotFound\<close>,
  not only after the first, with five seconds before each retry: if the first \<open>n\<close>
  attempts meet \<open>NotFound\<close> and attempt \<open>n\<close> (counted from 0) does not, and \<open>n\<close> retries
  fit under the recursion limit, the function returns after exactly \<open>n + 1\<close> calls and
  \<open>5 * n\<close> seconds of sleep, with the response of the last attempt or the exception
  reporting its failure. Only the recursion limit bounds the attempts: when \<open>room\<close>
  retries fit and the \<open>room + 1\<close> attempts all meet \<open>NotFound\<close>, the function raises the
  exception reporting the failure after \<open>room + 1\<close> calls, and in every case it returns
  after at most \<open>room + 1\<close> calls. The counterexample is a client that answers \<open>NotFound\<close>
  twice and then succeeds: the call is made three times and the route is created.
\<close>

theorem create_route_retries_while_not_found:
  assumes "mode_target mode gateway = Some t"
  shows "(n \<le> room \<and> (\<forall>k<n. not_found (attempt_answer client w route_table destination t gateway k))
          \<and> \<not> not_found (attempt_answer client w route_table destination t gateway n) \<longrightarrow>
          (\<exists>w'. create_route room client route_table destination gateway mode w =
                  (case attempt_answer client w route_table destination t gateway n of
                     Inr route \<Rightarrow> Inr route
                   | Inl e \<Rightarrow> Inl (route_error destination gateway route_table (boto_str e)), w')
               \<and> calls w' = calls w @ attempt_calls route_table destination t gateway (Suc n)
               \<and> slept w' = slept w + 5 * n))
         \<and> ((\<forall>k\<le>room. not_found (attempt_answer client w route_table destination t gateway k)) \<longrightarrow>
              (\<exists>w'. create_route room client route_table destination gateway mode w =
                      (Inl (route_error destination gateway route_table recursion_msg), w')
                   \<and> calls w' = calls w @ attempt_calls route_table destination t gateway (Suc room)
                   \<and> slept w' = slept w + 5 * Suc room))
         \<and> (\<exists>k\<le>room. calls (snd (create_route room client route_table destination gateway mode w)) =
                        calls w @ attempt_calls route_table destination t gateway (Suc k))"
proof -
  from create_route_trace [OF assms, of room client route_table destination w]
  have "\<exists>k\<le>room. calls (snd (create_route room client route_table destination gateway mode w)) =
                   calls w @ attempt_calls route_table destination t gateway (Suc k)"
    by (auto simp: attempt_calls_Suc_front attempt_calls_nat)
  with create_route_returns [OF assms, of n room client w route_table destination]
    create_route_exhausts [OF assms, of room client w route_table destination]
  show ?thesis
    by blast
qed

theorem create_route_twice_counterexample:
  "create_route 990 (stub_not_found_times 2) ''rtb-1'' ''10.1.0.0/16'' (Some ''nat-1'') ''nat'' (start []) =
     (Inr ok_route,
      \<lparr>stdin = [],
       stdout = [''Retrying...'' @ [NL], ''Retrying...'' @ [NL], ''Route created'' @ [NL]],
       calls = [CreateRoute ''rtb-1'' ''10.1.0.0/16'' (NatGatewayId (Some ''nat-1'')),
                CreateRoute ''rtb-1'' ''10.1.0.0/16'' (NatGatewayId (Some ''nat-1'')),
                CreateRoute ''rtb-1'' ''10.1.0.0/16'' (NatGatewayId (Some ''nat-1''))],
       failed = [CreateRoute ''rtb-1'' ''10.1.0.0/16'' (NatGatewayId (Some ''nat-1'')),
                 CreateRoute ''rtb-1'' ''10.1.0.0/16'' (NatGatewayId (Some ''nat-1''))],
       slept = 10\<rparr>)"
  by code_simp

theorem create_route_retries_while_not_found_witness:
  "mode_target ''nat'' (Some ''nat-1'') = Some (NatGatewayId (Some ''nat-1''))
   \<and> (3::nat) \<le> 990
   \<and> not_found (attempt_answer (stub_not_found_times 3) (start []) ''rtb-1'' ''10.1.0.0/16''
                         (NatGatewayId (Some ''nat-1'')) (Some ''nat-1'') 0)
   \<and> not_found (attempt_answer (stub_not_found_times 3) (start []) ''rtb-1'' ''10.1.0.0/16''
                         (NatGatewayId (Some ''nat-1'')) (Some ''nat-1'') 1)
   \<and> not_found (attempt_answer (stub_not_found_times 3) (start []) ''rtb-1'' ''10.1.0.0/16''
                         (NatGatewayId (Some ''nat-1'')) (Some ''nat-1'') 2)
   \<and> \<not> not_found (attempt_answer (stub_not_found_times 3) (start []) ''rtb-1'' ''10.1.0.0/16''
                         (NatGatewayId (Some ''nat-1'')) (Some ''nat-1'') 3)
   \<and> (\<exists>w'. create_route 990 (stub_not_found_times 3) ''rtb-1'' ''10.1.0.0/16'' (Some ''nat-1'') ''nat'' (start []) =
              (Inr ok_route, w')
           \<and> calls w' = replicate 4 (CreateRoute ''rtb-1'' ''10.1.0.0/16'' (NatGatewayId (Some ''nat-1'')))
           \<and> slept w' = 15)
   \<and> (\<forall>k. not_found (attempt_answer stub_always_not_found (start []) ''rtb-1'' ''10.1.0.0/16''
                         (NatGatewayId (Some ''nat-1'')) (Some ''nat-1'') k))
   \<and> (\<exists>w'. create_route 990 stub_always_not_found ''rtb-1'' ''10.1.0.0/16'' (Some ''nat-1'') ''nat'' (start []) =
              (Inl (route_error ''10.1.0.0/16'' (Some ''nat-1'') ''rtb-1'' recursion_msg), w')
           \<and> calls w' = replicate 991 (CreateRoute ''rtb-1'' ''10.1.0.0/16'' (NatGatewayId (Some ''nat-1'')))
           \<and> slept w' = 4955)"
proof -
  let ?c = "CreateRoute ''rtb-1'' ''10.1.0.0/16'' (NatGatewayId (Some ''nat-1''))"
  have m: "mode_target ''nat'' (Some ''nat-1'') = Some (NatGatewayId (Some ''nat-1''))"
    by (rule mode_target_nat)
  have nf: "py_in ''NotFound'' not_found_msg"
    by code_simp
  have st: "calls (start []) = []" "slept (start []) = 0"
    by (simp_all add: start_def)
  have calls3: "attempt_calls ''rtb-1'' ''10.1.0.0/16'' (NatGatewayId (Some ''nat-1'')) (Some ''nat-1'') k
                 = replicate k ?c" for k
    by (rule attempt_calls_nat)
  have ans: "attempt_answer (stub_not_found_times 3) (start []) ''rtb-1'' ''10.1.0.0/16''
                (NatGatewayId (Some ''nat-1'')) (Some ''nat-1'') k
              = (if k < 3 then Inl (ClientError not_found_msg) else Inr ok_route)" for k
    by (simp add: attempt_answer_def calls3 stub_not_found_times_def start_def)
  have a: "\<forall>k<3. not_found (attempt_answer (stub_not_found_times 3) (start []) ''rtb-1'' ''10.1.0.0/16''
                         (NatGatewayId (Some ''nat-1'')) (Some ''nat-1'') k)"
    by (simp add: ans not_found_def nf)
  have b: "\<not> not_found (attempt_answer (stub_not_found_times 3) (start []) ''rtb-1'' ''10.1.0.0/16''
                         (NatGatewayId (Some ''nat-1'')) (Some ''nat-1'') 3)"
    by (simp add: ans not_found_def)
  have c: "\<forall>k. not_found (attempt_answer stub_always_not_found (start []) ''rtb-1'' ''10.1.0.0/16''
                         (NatGatewayId (Some ''nat-1'')) (Some ''nat-1'') k)"
    by (simp add: attempt_answer_def stub_always_not_found_def not_found_def nf)
  have le: "(3::nat) \<le> 990"
    by simp
  from create_route_retries_while_not_found [OF m, of 3 990 "stub_not_found_times 3" "start []" "''rtb-1''" "''10.1.0.0/16''"] a b le
  have d: "\<exists>w'. create_route 990 (stub_not_found_times 3) ''rtb-1'' ''10.1.0.0/16'' (Some ''nat-1'') ''nat'' (start []) =
              (Inr ok_route, w')
           \<and> calls w' = replicate 4 ?c \<and> slept w' = 15"
    by (simp add: ans calls3 st)
  from create_route_retries_while_not_found [OF m, of _ 990 stub_always_not_found "start []" "''rtb-1''" "''10.1.0.0/16''"] c
  have e: "\<exists>w'. create_route 990 stub_always_not_found ''rtb-1'' ''10.1.0.0/16'' (Some ''nat-1'') ''nat'' (start []) =
              (Inl (route_error ''10.1.0.0/16'' (Some ''nat-1'') ''rtb-1'' recursion_msg), w')
           \<and> calls w' = replicate 991 ?c \<and> slept w' = 4955"
    by (simp add: calls3 st)
  from a have a':
    "not_found (attempt_answer (stub_not_found_times 3) (start []) ''rtb-1'' ''10.1.0.0/16''
                         (NatGatewayId (Some ''nat-1'')) (Some ''nat-1'') 0)"
    "not_found (attempt_answer (stub_not_found_times 3) (start []) ''rtb-1'' ''10.1.0.0/16''
                         (NatGatewayId (Some ''nat-1'')) (Some ''nat-1'') 1)"
    "not_found (attempt_answer (stub_not_found_times 3) (start []) ''rtb-1'' ''10.1.0.0/16''
                         (NatGatewayId (Some ''nat-1'')) (Some ''nat-1'') 2)"
    by simp_all
  from m le a' b c d e show ?thesis by blast
qed

subsection \<open>The count of additional routes\<close>

lemma of_char_digit_char: "d < 10 \<Longrightarrow> (of_char (digit_char d) :: nat) = 48 + d"
  by (simp add: digit_char_def)

lemma digit_char_props:
  assumes "d < 10"
  shows "is_digit (digit_char d)" "\<not> is_space (digit_char d)" "digit_val (digit_char d) = d"
    "digit_char d \<noteq> CHR ''-''" "digit_char d \<noteq> CHR ''+''" "digit_char d \<noteq> CHR ''_''"
proof -
  note c = of_char_digit_char [OF assms]
  show "is_digit (digit_char d)" "\<not> is_space (digit_char d)" "digit_val (digit_char d) = d"
    using assms c by (auto simp: is_digit_def is_space_def digit_val_def)
  have "(of_char (digit_char d) :: nat) \<noteq> of_char (CHR ''-'')"
    "(of_char (digit_char d) :: nat) \<noteq> of_char (CHR ''+'')"
    "(of_char (digit_char d) :: nat) \<noteq> of_char (CHR ''_'')"
    using assms c by simp_all
  then show "digit_char d \<noteq> CHR ''-''" "digit_char d \<noteq> CHR ''+''" "digit_char d \<noteq> CHR ''_''"
    by auto
qed

lemma str_nat_digits: "str_nat n \<noteq> [] \<and> list_all is_digit (str_nat n)"
proof (induction n rule: str_nat.induct)
  case (1 n)
  show ?case
  proof (cases "n < 10")
    case True
    then show ?thesis
      by (subst (1 2) str_nat.simps) (simp add: digit_char_props)
  next
    case False
    with 1 show ?thesis
      by (subst (1 2) str_nat.simps) (simp add: digit_char_props)
  qed
qed

lemma int_digits_snoc:
  "is_digit c \<Longrightarrow> list_all is_digit xs \<Longrightarrow>
   int_digits acc (xs @ [c]) = map_option (\<lambda>v. 10 * v + digit_val c) (int_digits acc xs)"
  by (induction xs arbitrary: acc) simp_all

lemma int_body_snoc:
  "is_digit c \<Longrightarrow> xs \<noteq> [] \<Longrightarrow> list_all is_digit xs \<Longrightarrow>
   int_body (xs @ [c]) = map_option (\<lambda>v. 10 * v + digit_val c) (int_body xs)"
  by (cases xs) (simp_all add: int_body_def int_digits_snoc)

lemma int_body_str_nat: "int_body (str_nat n) = Some n"
proof (induction n rule: str_nat.induct)
  case (1 n)
  show ?case
  proof (cases "n < 10")
    case True
    then show ?thesis
      by (subst str_nat.simps) (simp add: int_body_def digit_char_props)
  next
    case False
    then have "int_body (str_nat (n div 10) @ [digit_char (n mod 10)]) =
        map_option (\<lambda>v. 10 * v + digit_val (digit_char (n mod 10))) (int_body (str_nat (n div 10)))"
      by (intro int_body_snoc) (simp_all add: digit_char_props str_nat_digits)
    with False 1 show ?thesis
      by (subst str_nat.simps) (simp add: digit_char_props)
  qed
qed

lemma py_strip_id:
  "xs \<noteq> [] \<Longrightarrow> \<not> is_space (hd xs) \<Longrightarrow> \<not> is_space (last xs) \<Longrightarrow> py_strip xs = xs"
proof -
  assume a: "xs \<noteq> []" "\<not> is_space (hd xs)" "\<not> is_space (last xs)"
  then have "dropWhile is_space xs = xs"
    by (cases xs) simp_all
  moreover have "dropWhile is_space (rev xs) = rev xs"
    using a by (cases "rev xs") (auto simp: hd_rev [symmetric])
  ultimately show ?thesis
    by (simp add: py_strip_def)
qed

lemma str_nat_ends:
  "is_digit (hd (str_nat n))" "is_digit (last (str_nat n))"
  using str_nat_digits [of n]
  by (auto simp: list_all_iff)

lemma is_digit_not_space: "is_digit c \<Longrightarrow> \<not> is_space c"
  by (auto simp: is_digit_def is_space_def)

lemma is_digit_not_sign: "is_digit c \<Longrightarrow> c \<noteq> CHR ''-'' \<and> c \<noteq> CHR ''+''"
  by (auto simp: is_digit_def)

lemma filter_digits_id: "list_all is_digit xs \<Longrightarrow> filter is_digit xs = xs"
  by (induction xs) simp_all

lemma digits_str_nat: "length (filter is_digit (str_nat n)) = length (str_nat n)"
  using str_nat_digits [of n] by (simp add: filter_digits_id)

lemma py_int_str_nat:
  assumes "length (str_nat n) \<le> max_str_digits"
  shows "py_int (str_nat n) = Some (int n)"
proof -
  obtain c cs where s: "str_nat n = c # cs"
    using str_nat_digits [of n] by (cases "str_nat n") auto
  have "py_strip (str_nat n) = str_nat n"
    using str_nat_digits [of n] str_nat_ends [of n]
    by (intro py_strip_id) (auto simp: is_digit_not_space)
  moreover have "is_digit c"
    using str_nat_ends(1) [of n] s by simp
  moreover have "\<not> max_str_digits < length (filter is_digit (str_nat n))"
    using assms by (simp add: digits_str_nat)
  ultimately show ?thesis
    using int_body_str_nat [of n] is_digit_not_sign [of c] by (simp add: py_int_def s)
qed

lemma py_int_minus_str_nat:
  assumes "length (str_nat n) \<le> max_str_digits"
  shows "py_int (CHR ''-'' # str_nat n) = Some (- int n)"
proof -
  have "\<not> is_space (CHR ''-'')"
    by (simp add: is_space_def)
  moreover have "last (CHR ''-'' # str_nat n) = last (str_nat n)"
    using str_nat_digits [of n] by simp
  ultimately have "py_strip (CHR ''-'' # str_nat n) = CHR ''-'' # str_nat n"
    using str_nat_ends(2) [of n]
    by (intro py_strip_id) (auto simp: is_digit_not_space)
  moreover have "\<not> is_digit (CHR ''-'')"
    by (simp add: is_digit_def)
  then have "\<not> max_str_digits < length (filter is_digit (CHR ''-'' # str_nat n))"
    using assms by (simp add: digits_str_nat)
  ultimately show ?thesis
    by (simp add: py_int_def int_body_str_nat)
qed

lemma py_int_str_int:
  assumes "length (str_nat (nat \<bar>z\<bar>)) \<le> max_str_digits"
  shows "py_int (str_int z) = Some z"
proof (cases "z < 0")
  case True
  then have "nat \<bar>z\<bar> = nat (- z)"
    by simp
  with assms True show ?thesis
    by (simp add: str_int_def py_int_minus_str_nat)
next
  case False
  then have "nat \<bar>z\<bar> = nat z"
    by simp
  with assms False show ?thesis
    by (simp add: str_int_def py_int_str_nat)
qed

lemma num_loop_Some: "py_int s = Some n \<Longrightarrow> num_loop s w = (Inr n, w)"
  by (subst num_loop.simps) simp

lemma num_loop_None:
  "py_int s = None \<Longrightarrow>
   num_loop s w =
     (case stdin w of
        [] \<Rightarrow> (Inl EOFError, w\<lparr>stdout := stdout w @ [num_reprompt]\<rparr>)
      | l # ls \<Rightarrow> num_loop l (w\<lparr>stdin := ls, stdout := stdout w @ [num_reprompt]\<rparr>))"
  by (subst num_loop.simps) (simp add: py_input_def split: list.splits)

lemma num_loop_stream:
  "num_loop s w =
     (let skipped = length (takeWhile (\<lambda>x. py_int x = None) (s # stdin w));
          out = stdout w @ replicate skipped num_reprompt
      in case List.map_filter py_int (s # stdin w) of
           [] \<Rightarrow> (Inl EOFError, w\<lparr>stdin := [], stdout := out\<rparr>)
         | n # _ \<Rightarrow> (Inr n, w\<lparr>stdin := drop skipped (stdin w), stdout := out\<rparr>))"
proof (induction "stdin w" arbitrary: s w)
  case Nil
  then show ?case
    by (cases "py_int s") (simp_all add: num_loop_Some num_loop_None List.map_filter_simps Let_def)
next
  case (Cons l ls)
  from Cons.hyps(2) [symmetric] have st: "stdin w = l # ls" .
  show ?case
  proof (cases "py_int s")
    case (Some n)
    then show ?thesis
      by (simp add: num_loop_Some List.map_filter_simps Let_def)
  next
    case None
    let ?w = "w\<lparr>stdin := ls, stdout := stdout w @ [num_reprompt]\<rparr>"
    have "num_loop s w = num_loop l ?w"
      using None by (simp add: num_loop_None st)
    also have "\<dots> = (let skipped = length (takeWhile (\<lambda>x. py_int x = None) (l # stdin ?w));
          out = stdout ?w @ replicate skipped num_reprompt
      in case List.map_filter py_int (l # stdin ?w) of
           [] \<Rightarrow> (Inl EOFError, ?w\<lparr>stdin := [], stdout := out\<rparr>)
         | n # _ \<Rightarrow> (Inr n, ?w\<lparr>stdin := drop skipped (stdin ?w), stdout := out\<rparr>))"
      by (rule Cons.hyps(1)) simp
    finally show ?thesis
      using None by (simp add: st List.map_filter_simps Let_def replicate_append_same split: list.splits)
  qed
qed

lemma routes_loop_nonpositive: "n \<le> 0 \<Longrightarrow> routes_loop room client rt g 0 n w = (Inr (), w)"
  by (subst routes_loop.simps) simp

text \<open>
  Claim C8, as amended. The count is accepted exactly when \<open>int\<close> parses the line, and
  that includes negative integers: for every integer \<open>z\<close> of at most 4300 digits, the
  line \<open>str(z)\<close> is accepted with value \<open>z\<close> and without a reprompt. In general the loop
  skips the lines that \<open>int\<close> rejects, printing the reprompt once for each, and returns
  the value of the first line that parses; if no line parses the input ends and
  \<open>EOFError\<close> is raised. So the loop over the additional routes can be reached with a
  negative count, and with a count that is zero or negative it does nothing.
\<close>

theorem num_loop_accepts_any_int:
  "(length (str_nat (nat \<bar>z\<bar>)) \<le> max_str_digits \<longrightarrow> num_loop (str_int z) w = (Inr z, w))
   \<and> num_loop s w =
       (let skipped = length (takeWhile (\<lambda>x. py_int x = None) (s # stdin w));
            out = stdout w @ replicate skipped num_reprompt
        in case List.map_filter py_int (s # stdin w) of
             [] \<Rightarrow> (Inl EOFError, w\<lparr>stdin := [], stdout := out\<rparr>)
           | n # _ \<Rightarrow> (Inr n, w\<lparr>stdin := drop skipped (stdin w), stdout := out\<rparr>))
   \<and> (num_routes \<le> 0 \<longrightarrow> routes_loop room client rt g 0 num_routes w = (Inr (), w))"
  using num_loop_Some [OF py_int_str_int] num_loop_stream routes_loop_nonpositive by blast

theorem num_loop_accepts_any_int_witness:
  "length (str_nat (nat \<bar>- 3\<bar>)) \<le> max_str_digits
   \<and> num_loop (str_int (- 3)) (start [''5'']) = (Inr (- 3), start [''5''])
   \<and> num_loop ''three'' (start [''1.5'', ''-3'', ''7'']) =
       (Inr (- 3), \<lparr>stdin = [''7''], stdout = [num_reprompt, num_reprompt], calls = [], failed = [], slept = 0\<rparr>)
   \<and> (- 3 :: int) \<le> 0
   \<and> routes_loop 990 stub_client ''rtb-1'' (Some ''nat-1'') 0 (- 3) (start []) = (Inr (), start [])"
proof -
  have p: "py_int ''three'' = None" "py_int ''1.5'' = None" "py_int ''-3'' = Some (- 3)"
    by code_simp+
  have l: "length (str_nat (nat \<bar>- 3\<bar>)) \<le> max_str_digits"
    by code_simp
  have "num_loop ''three'' (start [''1.5'', ''-3'', ''7'']) =
       (Inr (- 3), \<lparr>stdin = [''7''], stdout = [num_reprompt, num_reprompt], calls = [], failed = [], slept = 0\<rparr>)"
    using num_loop_accepts_any_int [of 0 "start [''1.5'', ''-3'', ''7'']" "''three''"]
    by (simp add: p start_def List.map_filter_simps Let_def)
  then show ?thesis
    using l num_loop_accepts_any_int [of "- 3" "start [''5'']" "''x''" "- 3" 990 stub_client "''rtb-1''" "Some ''nat-1''"]
      num_loop_accepts_any_int [of "- 3" "start []" "''x''" "- 3" 990 stub_client "''rtb-1''" "Some ''nat-1''"]
    by simp
qed

text \<open>The counterexample to claim C8 as it was stated: the line \<open>-3\<close> is accepted as the
  count, the line after it is not read, and a whole run with that count ends normally
  after the default route.\<close>

theorem num_loop_negative_counterexample:
  "num_loop ''-3'' (start [''5'']) = (Inr (- 3), start [''5''])
   \<and> main 990 (Inr stub_client) (start [''vpc-123'', ''10.0.5.0/24'', ''-3'']) =
     (Inr (),
       \<lparr>stdin = [],
        stdout =
          [vpc_prompt, cidr_prompt,
           ''Create subnet with subnetID subnet-1'',
           ''Creating NAT gateway nat-1...'' @ [NL],
           ''Created NAT gateway'' @ [NL],
           ''Route created'' @ [NL],
           ''How many routes need to be created?''],
        calls =
          [DescribeInstances, CreateInternetGateway,
           AttachInternetGateway ''igw-1'' ''vpc-123'',
           CreateSubnet ''vpc-123'' ''10.0.5.0/24'', AllocateAddress,
           CreateNatGateway ''subnet-1'' ''eipalloc-1'',
           WaitNatGatewayAvailable ''nat-1'', CreateRouteTable ''vpc-123'',
           AssociateRouteTable ''rtb-1'' ''subnet-1'',
           CreateRoute ''rtb-1'' ''0.0.0.0/0'' (GatewayId (Some ''igw-1''))],
        failed = [], slept = 0\<rparr>)"
  by code_simp

subsection \<open>The strings the CIDR pattern accepts\<close>

lemma lpow_range:
  assumes "hi \<noteq> 0"
  shows "(\<Union>k\<in>{lo..hi}. lpow L k) =
         (if lo = 0 then {[]} else {}) \<union> {u @ v | u v. u \<in> L \<and> v \<in> (\<Union>k\<in>{lo - 1..hi - 1}. lpow L k)}"
proof (intro set_eqI iffI)
  fix x
  assume "x \<in> (\<Union>k\<in>{lo..hi}. lpow L k)"
  then obtain k where k: "lo \<le> k" "k \<le> hi" "x \<in> lpow L k"
    by auto
  show "x \<in> (if lo = 0 then {[]} else {}) \<union> {u @ v | u v. u \<in> L \<and> v \<in> (\<Union>k\<in>{lo - 1..hi - 1}. lpow L k)}"
  proof (cases k)
    case 0
    with k show ?thesis by simp
  next
    case (Suc j)
    with k obtain u v where "x = u @ v" "u \<in> L" "v \<in> lpow L j"
      by auto
    moreover have "j \<in> {lo - 1..hi - 1}"
      using k Suc by auto
    ultimately have "x \<in> {u @ v | u v. u \<in> L \<and> v \<in> (\<Union>k\<in>{lo - 1..hi - 1}. lpow L k)}"
      by blast
    then show ?thesis
      by blast
  qed
next
  fix x
  assume "x \<in> (if lo = 0 then {[]} else {}) \<union> {u @ v | u v. u \<in> L \<and> v \<in> (\<Union>k\<in>{lo - 1..hi - 1}. lpow L k)}"
  then consider "lo = 0" "x = []"
    | u v j where "x = u @ v" "u \<in> L" "lo - 1 \<le> j" "j \<le> hi - 1" "v \<in> lpow L j"
    by (auto split: if_splits)
  then show "x \<in> (\<Union>k\<in>{lo..hi}. lpow L k)"
  proof cases
    case 1
    then have "x \<in> lpow L 0" "0 \<in> {lo..hi}"
      by simp_all
    then show ?thesis by blast
  next
    case 2
    then have "x \<in> lpow L (Suc j)" "Suc j \<in> {lo..hi}"
      using assms by auto
    then show ?thesis by blast
  qed
qed

lemma suffixes_seq:
  "(\<Union>x\<in>{v. \<exists>u. u \<in> A \<and> s = u @ v}. {v. \<exists>u. u \<in> B \<and> x = u @ v}) =
   {v. \<exists>u. u \<in> {a @ b | a b. a \<in> A \<and> b \<in> B} \<and> s = u @ v}"
proof (intro set_eqI iffI)
  fix v
  assume "v \<in> (\<Union>x\<in>{v. \<exists>u. u \<in> A \<and> s = u @ v}. {v. \<exists>u. u \<in> B \<and> x = u @ v})"
  then obtain a b where "a \<in> A" "b \<in> B" "s = a @ b @ v"
    by blast
  then have "a @ b \<in> {a @ b | a b. a \<in> A \<and> b \<in> B}" "s = (a @ b) @ v"
    by auto
  then show "v \<in> {v. \<exists>u. u \<in> {a @ b | a b. a \<in> A \<and> b \<in> B} \<and> s = u @ v}"
    by blast
next
  fix v
  assume "v \<in> {v. \<exists>u. u \<in> {a @ b | a b. a \<in> A \<and> b \<in> B} \<and> s = u @ v}"
  then obtain a b where ab: "a \<in> A" "b \<in> B" "s = (a @ b) @ v"
    by blast
  then have "b @ v \<in> {v. \<exists>u. u \<in> A \<and> s = u @ v}" "v \<in> {w. \<exists>u. u \<in> B \<and> b @ v = u @ w}"
    by auto
  then show "v \<in> (\<Union>x\<in>{v. \<exists>u. u \<in> A \<and> s = u @ v}. {v. \<exists>u. u \<in> B \<and> x = u @ v})"
    by blast
qed

lemma suffixes_insert_empty:
  "{v. \<exists>u. u \<in> S \<and> s = u @ v} \<union> {s} = {v. \<exists>u. u \<in> {[]} \<union> S \<and> s = u @ v}"
  by blast

lemma suffixes_empty:
  "{v. \<exists>u. u \<in> S \<and> s = u @ v} \<union> {} = {v. \<exists>u. u \<in> {} \<union> S \<and> s = u @ v}"
  by blast

lemma rmatch_lang: "set (rmatch r s) = {v. \<exists>u. u \<in> lang r \<and> s = u @ v}"
proof (induction r s rule: rmatch.induct)
  case (1 a b s)
  show ?case by (cases s) auto
next
  case (2 a s)
  show ?case by (cases s) auto
next
  case (3 r1 r2 s)
  have "set (rmatch (Seq r1 r2) s) = (\<Union>x\<in>set (rmatch r1 s). set (rmatch r2 x))"
    by simp
  also have "\<dots> = (\<Union>x\<in>set (rmatch r1 s). {v. \<exists>u. u \<in> lang r2 \<and> x = u @ v})"
    using "3.IH"(2) by simp
  also have "\<dots> = {v. \<exists>u. u \<in> lang (Seq r1 r2) \<and> s = u @ v}"
    unfolding "3.IH"(1) suffixes_seq by simp
  finally show ?case .
next
  case (4 r1 r2 s)
  have "set (rmatch (Alt r1 r2) s) = set (rmatch r1 s) \<union> set (rmatch r2 s)"
    by simp
  also have "\<dots> = {v. \<exists>u. u \<in> lang (Alt r1 r2) \<and> s = u @ v}"
    unfolding "4.IH" by (simp only: lang.simps) blast
  finally show ?case .
next
  case (5 r s)
  have "set (rmatch (Opt r) s) = set (rmatch r s) \<union> {s}"
    by simp
  also have "\<dots> = {v. \<exists>u. u \<in> lang (Opt r) \<and> s = u @ v}"
    unfolding "5.IH" by (simp only: lang.simps) auto
  finally show ?case .
next
  case (6 r lo hi s)
  show ?case
  proof (cases "hi = 0")
    case True
    show ?thesis
    proof (cases "lo = 0")
      case True
      with \<open>hi = 0\<close> show ?thesis by (simp add: rmatch.simps(6))
    next
      case False
      with \<open>hi = 0\<close> show ?thesis by (simp add: rmatch.simps(6))
    qed
  next
    case False
    let ?T = "\<Union>k\<in>{lo - 1..hi - 1}. lpow (lang r) k"
    let ?S = "{a @ b | a b. a \<in> lang r \<and> b \<in> ?T}"
    have ih2: "set (rmatch (Times r (lo - 1) (hi - 1)) x) = {v. \<exists>u. u \<in> ?T \<and> x = u @ v}"
      if "x \<in> set (rmatch r s)" for x
      using "6.IH"(2) [OF False that] by (simp only: lang.simps)
    have "set (rmatch (Times r lo hi) s) =
            (\<Union>x\<in>set (rmatch r s). set (rmatch (Times r (lo - 1) (hi - 1)) x)) \<union> (if lo = 0 then {s} else {})"
      using False by (subst rmatch.simps(6)) simp
    also have "\<dots> = (\<Union>x\<in>set (rmatch r s). {v. \<exists>u. u \<in> ?T \<and> x = u @ v}) \<union> (if lo = 0 then {s} else {})"
      by (intro arg_cong2 [where f = "(\<union>)"] SUP_cong refl ih2)
    also have "\<dots> = {v. \<exists>u. u \<in> ?S \<and> s = u @ v} \<union> (if lo = 0 then {s} else {})"
      unfolding "6.IH"(1) [OF False] suffixes_seq ..
    also have "\<dots> = {v. \<exists>u. u \<in> (if lo = 0 then {[]} else {}) \<union> ?S \<and> s = u @ v}"
    proof (cases "lo = 0")
      case True
      show ?thesis unfolding if_P [OF True] by (rule suffixes_insert_empty)
    next
      case False
      show ?thesis unfolding if_not_P [OF False] by (rule suffixes_empty)
    qed
    also have "\<dots> = {v. \<exists>u. u \<in> lang (Times r lo hi) \<and> s = u @ v}"
      unfolding lang.simps lpow_range [OF False, where lo = lo and L = "lang r"] ..
    finally show ?thesis .
  qed
qed


lemma digit_char_digit_val: "is_digit c \<Longrightarrow> digit_char (digit_val c) = c"
  by (simp add: is_digit_def digit_char_def digit_val_def)

lemma digit_val_less: "is_digit c \<Longrightarrow> digit_val c < 10"
  by (auto simp: is_digit_def digit_val_def)

lemma in_range_0_9: "in_range (CHR ''0'') (CHR ''9'') c = is_digit c"
  by (simp add: in_range_def is_digit_def)

lemma in_range_1_2: "in_range (CHR ''1'') (CHR ''2'') c = (is_digit c \<and> (digit_val c = 1 \<or> digit_val c = 2))"
  by (auto simp: in_range_def is_digit_def digit_val_def)

lemma in_range_0_2: "in_range (CHR ''0'') (CHR ''2'') c = (is_digit c \<and> digit_val c \<le> 2)"
  by (auto simp: in_range_def is_digit_def digit_val_def)

lemma char_3: "CHR ''3'' = digit_char 3"
  by code_simp

lemma str_nat_one: "n < 10 \<Longrightarrow> str_nat n = [digit_char n]"
  by (subst str_nat.simps) simp

lemma str_nat_two: "10 \<le> n \<Longrightarrow> n < 100 \<Longrightarrow> str_nat n = [digit_char (n div 10), digit_char (n mod 10)]"
  by (subst str_nat.simps) (simp add: str_nat_one)

lemma lang_digit: "lang digit = {[c] | c. is_digit c}"
  by (simp add: digit_def in_range_0_9)

lemma lpow_single: "lpow {[c] | c. P c} k = {u. length u = k \<and> list_all P u}"
proof (induction k)
  case 0
  show ?case by auto
next
  case (Suc k)
  show ?case
  proof (intro set_eqI iffI)
    fix x
    assume "x \<in> lpow {[c] | c. P c} (Suc k)"
    then obtain c v where "x = [c] @ v" "P c" "v \<in> lpow {[c] | c. P c} k"
      by auto
    with Suc show "x \<in> {u. length u = Suc k \<and> list_all P u}"
      by simp
  next
    fix x
    assume "x \<in> {u. length u = Suc k \<and> list_all P u}"
    then obtain c v where "x = c # v" "P c" "length v = k" "list_all P v"
      by (cases x) auto
    with Suc have "x = [c] @ v" "[c] \<in> {[c] | c. P c}" "v \<in> lpow {[c] | c. P c} k"
      by auto
    then show "x \<in> lpow {[c] | c. P c} (Suc k)"
      unfolding lpow.simps by blast
  qed
qed

lemma lang_octet: "lang (Times digit 1 3) = {u. octet u}"
proof -
  have "lang (Times digit 1 3) = (\<Union>k\<in>{1..3}. {u. length u = k \<and> list_all is_digit u})"
    by (simp add: lang_digit lpow_single)
  also have "\<dots> = {u. octet u}"
    by (auto simp: octet_def Suc_le_eq)
  finally show ?thesis .
qed

lemma thirty_plus: "(d::nat) \<le> 2 \<Longrightarrow> (30 + d) mod 10 = d \<and> (30 + d) div 10 = 3"
  by presburger

lemma lang_mask:
  "lang (Alt digit (Alt (Seq (Range (CHR ''1'') (CHR ''2'')) digit) (Seq (Lit (CHR ''3'')) (Range (CHR ''0'') (CHR ''2'')))))
   = {str_nat n | n. n \<le> 32}"
proof (intro set_eqI iffI)
  fix x
  assume "x \<in> lang (Alt digit (Alt (Seq (Range (CHR ''1'') (CHR ''2'')) digit) (Seq (Lit (CHR ''3'')) (Range (CHR ''0'') (CHR ''2'')))))"
  then consider c where "x = [c]" "is_digit c"
    | c1 c2 where "x = [c1, c2]" "is_digit c1" "digit_val c1 = 1 \<or> digit_val c1 = 2" "is_digit c2"
    | c2 where "x = [CHR ''3'', c2]" "is_digit c2" "digit_val c2 \<le> 2"
    by (auto simp: lang_digit in_range_1_2 in_range_0_2)
  then show "x \<in> {str_nat n | n. n \<le> 32}"
  proof cases
    case 1
    then have "x = str_nat (digit_val c)" "digit_val c \<le> 32"
      using digit_val_less [of c] by (simp_all add: str_nat_one digit_char_digit_val)
    then show ?thesis by blast
  next
    case 2
    let ?n = "10 * digit_val c1 + digit_val c2"
    have "?n div 10 = digit_val c1" "?n mod 10 = digit_val c2" "10 \<le> ?n" "?n < 100" "?n \<le> 32"
      using 2 digit_val_less [of c2] by auto
    then have "x = str_nat ?n" "?n \<le> 32"
      using 2 by (simp_all add: str_nat_two digit_char_digit_val)
    then show ?thesis by blast
  next
    case 3
    let ?n = "30 + digit_val c2"
    have "?n div 10 = 3" "?n mod 10 = digit_val c2" "10 \<le> ?n" "?n < 100" "?n \<le> 32"
      using 3(3) thirty_plus [of "digit_val c2"] by simp_all
    then have "x = str_nat ?n" "?n \<le> 32"
      using 3 by (simp_all add: str_nat_two digit_char_digit_val char_3)
    then show ?thesis by blast
  qed
next
  fix x
  assume "x \<in> {str_nat n | n. n \<le> 32}"
  then obtain n where n: "x = str_nat n" "n \<le> 32"
    by blast
  consider "n < 10" | "10 \<le> n" "n < 30" | "30 \<le> n"
    by linarith
  then show "x \<in> lang (Alt digit (Alt (Seq (Range (CHR ''1'') (CHR ''2'')) digit) (Seq (Lit (CHR ''3'')) (Range (CHR ''0'') (CHR ''2'')))))"
  proof cases
    case 1
    then show ?thesis
      using n by (simp add: str_nat_one lang_digit digit_char_props)
  next
    case 2
    then have d: "n div 10 = 1 \<or> n div 10 = 2" "n mod 10 < 10" "n div 10 < 10"
      by auto
    have "x = [digit_char (n div 10)] @ [digit_char (n mod 10)]"
      using n 2 by (simp add: str_nat_two)
    moreover have "[digit_char (n div 10)] \<in> lang (Range (CHR ''1'') (CHR ''2''))"
      using d by (auto simp: in_range_1_2 digit_char_props)
    moreover have "[digit_char (n mod 10)] \<in> lang digit"
      using d by (simp add: lang_digit digit_char_props)
    ultimately have "x \<in> lang (Seq (Range (CHR ''1'') (CHR ''2'')) digit)"
      unfolding lang.simps(3) by blast
    then show ?thesis by simp
  next
    case 3
    then have d: "n div 10 = 3" "n mod 10 \<le> 2" "n mod 10 < 10"
      using n(2) by presburger+
    have "x = [CHR ''3''] @ [digit_char (n mod 10)]"
      using n 3 d by (simp add: str_nat_two char_3)
    moreover have "[digit_char (n mod 10)] \<in> lang (Range (CHR ''0'') (CHR ''2''))"
      using d by (simp add: in_range_0_2 digit_char_props)
    ultimately have "x \<in> lang (Seq (Lit (CHR ''3'')) (Range (CHR ''0'') (CHR ''2'')))"
      unfolding lang.simps(3) lang.simps(2) by blast
    then show ?thesis by simp
  qed
qed


lemma lpow_3: "lpow A 3 = {a @ b @ c | a b c. a \<in> A \<and> b \<in> A \<and> c \<in> A}"
proof -
  have "lpow A (Suc (Suc (Suc 0))) = {a @ b @ c | a b c. a \<in> A \<and> b \<in> A \<and> c \<in> A}"
    by (simp only: lpow.simps) fastforce
  then show ?thesis
    by (simp only: numeral_3_eq_3)
qed

lemma lang_group:
  "lang (Times (Seq (Times digit 1 3) (Lit (CHR ''.''))) 3 3) =
   {a @ ''.'' @ b @ ''.'' @ c @ ''.'' | a b c. octet a \<and> octet b \<and> octet c}"
proof -
  have g: "lang (Seq (Times digit 1 3) (Lit (CHR ''.''))) = {a @ ''.'' | a. octet a}"
    unfolding lang.simps(3) lang_octet by auto
  have "lang (Times (Seq (Times digit 1 3) (Lit (CHR ''.''))) 3 3) = lpow {a @ ''.'' | a. octet a} 3"
    unfolding lang.simps(6) g by simp
  also have "\<dots> = {a @ ''.'' @ b @ ''.'' @ c @ ''.'' | a b c. octet a \<and> octet b \<and> octet c}"
  proof (intro set_eqI iffI)
    fix x
    assume "x \<in> lpow {a @ ''.'' | a. octet a} 3"
    then obtain a b c where "x = (a @ ''.'') @ (b @ ''.'') @ (c @ ''.'')" "octet a" "octet b" "octet c"
      unfolding lpow_3 by blast
    then have "x = a @ ''.'' @ b @ ''.'' @ c @ ''.'' \<and> octet a \<and> octet b \<and> octet c"
      by simp
    then show "x \<in> {a @ ''.'' @ b @ ''.'' @ c @ ''.'' | a b c. octet a \<and> octet b \<and> octet c}"
      by blast
  next
    fix x
    assume "x \<in> {a @ ''.'' @ b @ ''.'' @ c @ ''.'' | a b c. octet a \<and> octet b \<and> octet c}"
    then obtain a b c where "x = a @ ''.'' @ b @ ''.'' @ c @ ''.''" "octet a" "octet b" "octet c"
      by blast
    then have "x = (a @ ''.'') @ (b @ ''.'') @ (c @ ''.'')"
      "a @ ''.'' \<in> {a @ ''.'' | a. octet a}" "b @ ''.'' \<in> {a @ ''.'' | a. octet a}"
      "c @ ''.'' \<in> {a @ ''.'' | a. octet a}"
      by auto
    then show "x \<in> lpow {a @ ''.'' | a. octet a} 3"
      unfolding lpow_3 by blast
  qed
  finally show ?thesis .
qed

lemma lang_tail:
  "lang (Opt (Seq (Lit (CHR ''/''))
                  (Alt digit
                     (Alt (Seq (Range (CHR ''1'') (CHR ''2'')) digit)
                          (Seq (Lit (CHR ''3'')) (Range (CHR ''0'') (CHR ''2'')))))))
   = {m. m = [] \<or> (\<exists>n\<le>32. m = CHR ''/'' # str_nat n)}"
  unfolding lang.simps(5) lang.simps(3) lang_mask by auto

lemma lang_cidr_re:
  "lang cidr_re =
   {a @ ''.'' @ b @ ''.'' @ c @ ''.'' @ d @ m | a b c d m.
      octet a \<and> octet b \<and> octet c \<and> octet d \<and> (m = [] \<or> (\<exists>n\<le>32. m = CHR ''/'' # str_nat n))}"
proof -
  have "lang cidr_re =
    {g @ d @ m | g d m. g \<in> {a @ ''.'' @ b @ ''.'' @ c @ ''.'' | a b c. octet a \<and> octet b \<and> octet c}
       \<and> d \<in> {u. octet u} \<and> m \<in> {m. m = [] \<or> (\<exists>n\<le>32. m = CHR ''/'' # str_nat n)}}"
    unfolding cidr_re_def lang.simps(3) [of "Times (Seq (Times digit 1 3) (Lit (CHR ''.''))) 3 3"]
      lang.simps(3) [of "Times digit 1 3"] lang_group lang_octet lang_tail
    by blast
  also have "\<dots> = {a @ ''.'' @ b @ ''.'' @ c @ ''.'' @ d @ m | a b c d m.
      octet a \<and> octet b \<and> octet c \<and> octet d \<and> (m = [] \<or> (\<exists>n\<le>32. m = CHR ''/'' # str_nat n))}"
  proof (intro set_eqI iffI)
    fix x
    assume "x \<in> {g @ d @ m | g d m. g \<in> {a @ ''.'' @ b @ ''.'' @ c @ ''.'' | a b c. octet a \<and> octet b \<and> octet c}
       \<and> d \<in> {u. octet u} \<and> m \<in> {m. m = [] \<or> (\<exists>n\<le>32. m = CHR ''/'' # str_nat n)}}"
    then obtain a b c d m where "x = (a @ ''.'' @ b @ ''.'' @ c @ ''.'') @ d @ m"
      "octet a" "octet b" "octet c" "octet d" "m = [] \<or> (\<exists>n\<le>32. m = CHR ''/'' # str_nat n)"
      by blast
    then have "x = a @ ''.'' @ b @ ''.'' @ c @ ''.'' @ d @ m
       \<and> octet a \<and> octet b \<and> octet c \<and> octet d \<and> (m = [] \<or> (\<exists>n\<le>32. m = CHR ''/'' # str_nat n))"
      by simp
    then show "x \<in> {a @ ''.'' @ b @ ''.'' @ c @ ''.'' @ d @ m | a b c d m.
      octet a \<and> octet b \<and> octet c \<and> octet d \<and> (m = [] \<or> (\<exists>n\<le>32. m = CHR ''/'' # str_nat n))}"
      by blast
  next
    fix x
    assume "x \<in> {a @ ''.'' @ b @ ''.'' @ c @ ''.'' @ d @ m | a b c d m.
      octet a \<and> octet b \<and> octet c \<and> octet d \<and> (m = [] \<or> (\<exists>n\<le>32. m = CHR ''/'' # str_nat n))}"
    then obtain a b c d m where x: "x = a @ ''.'' @ b @ ''.'' @ c @ ''.'' @ d @ m"
      "octet a" "octet b" "octet c" "octet d" "m = [] \<or> (\<exists>n\<le>32. m = CHR ''/'' # str_nat n)"
      by blast
    then have "x = (a @ ''.'' @ b @ ''.'' @ c @ ''.'') @ d @ m"
      by simp
    moreover have "a @ ''.'' @ b @ ''.'' @ c @ ''.'' \<in> {a @ ''.'' @ b @ ''.'' @ c @ ''.'' | a b c. octet a \<and> octet b \<and> octet c}"
      using x by blast
    ultimately show "x \<in> {g @ d @ m | g d m. g \<in> {a @ ''.'' @ b @ ''.'' @ c @ ''.'' | a b c. octet a \<and> octet b \<and> octet c}
       \<and> d \<in> {u. octet u} \<and> m \<in> {m. m = [] \<or> (\<exists>n\<le>32. m = CHR ''/'' # str_nat n)}}"
      using x by blast
  qed
  finally show ?thesis .
qed

lemma re_match_lang: "re_match r s = (\<exists>u e. u \<in> lang r \<and> (e = [] \<or> e = [NL]) \<and> s = u @ e)"
  unfolding re_match_def list_ex_iff rmatch_lang by blast

text \<open>
  Claim C5, as amended. The pattern accepts exactly the strings \<open>A.B.C.D\<close> and
  \<open>A.B.C.D/N\<close>, each with or without one newline at the very end, where \<open>A\<close>, \<open>B\<close>,
  \<open>C\<close> and \<open>D\<close> are one to three decimal digits each, with no check of their value, and
  \<open>N\<close> is the decimal numeral of a number from 0 to 32 as \<open>str\<close> writes it, that is,
  without a leading zero. Every other string is rejected; a line that \<open>input\<close> returns
  holds no newline. The counterexample is \<open>1.2.3.4/05\<close>: it has the shape the claim gives
  and the mask 5, and the pattern rejects it.
\<close>

theorem cidr_re_accepts_iff:
  "re_match cidr_re s \<longleftrightarrow>
   (\<exists>a b c d m e. octet a \<and> octet b \<and> octet c \<and> octet d
      \<and> (m = [] \<or> (\<exists>n\<le>32. m = CHR ''/'' # str_nat n))
      \<and> (e = [] \<or> e = [NL])
      \<and> s = a @ ''.'' @ b @ ''.'' @ c @ ''.'' @ d @ m @ e)"
proof
  assume "re_match cidr_re s"
  then obtain u e where "u \<in> lang cidr_re" "e = [] \<or> e = [NL]" "s = u @ e"
    unfolding re_match_lang by blast
  then obtain a b c d m where "octet a" "octet b" "octet c" "octet d"
    "m = [] \<or> (\<exists>n\<le>32. m = CHR ''/'' # str_nat n)" "e = [] \<or> e = [NL]"
    "s = (a @ ''.'' @ b @ ''.'' @ c @ ''.'' @ d @ m) @ e"
    unfolding lang_cidr_re by blast
  then have "octet a \<and> octet b \<and> octet c \<and> octet d
      \<and> (m = [] \<or> (\<exists>n\<le>32. m = CHR ''/'' # str_nat n))
      \<and> (e = [] \<or> e = [NL])
      \<and> s = a @ ''.'' @ b @ ''.'' @ c @ ''.'' @ d @ m @ e"
    by simp
  then show "\<exists>a b c d m e. octet a \<and> octet b \<and> octet c \<and> octet d
      \<and> (m = [] \<or> (\<exists>n\<le>32. m = CHR ''/'' # str_nat n))
      \<and> (e = [] \<or> e = [NL])
      \<and> s = a @ ''.'' @ b @ ''.'' @ c @ ''.'' @ d @ m @ e"
    by blast
next
  assume "\<exists>a b c d m e. octet a \<and> octet b \<and> octet c \<and> octet d
      \<and> (m = [] \<or> (\<exists>n\<le>32. m = CHR ''/'' # str_nat n))
      \<and> (e = [] \<or> e = [NL])
      \<and> s = a @ ''.'' @ b @ ''.'' @ c @ ''.'' @ d @ m @ e"
  then obtain a b c d m e where h: "octet a" "octet b" "octet c" "octet d"
    "m = [] \<or> (\<exists>n\<le>32. m = CHR ''/'' # str_nat n)" "e = [] \<or> e = [NL]"
    "s = a @ ''.'' @ b @ ''.'' @ c @ ''.'' @ d @ m @ e"
    by blast
  then have "a @ ''.'' @ b @ ''.'' @ c @ ''.'' @ d @ m \<in> lang cidr_re"
    unfolding lang_cidr_re by blast
  moreover have "s = (a @ ''.'' @ b @ ''.'' @ c @ ''.'' @ d @ m) @ e"
    using h(7) by simp
  ultimately show "re_match cidr_re s"
    unfolding re_match_lang using h(6) by blast
qed

theorem cidr_re_leading_zero_counterexample:
  "spec_cidr_accepts ''1.2.3.4/05'' \<and> \<not> re_match cidr_re ''1.2.3.4/05''"
  by code_simp

theorem cidr_re_accepts_iff_witness:
  "re_match cidr_re ''999.999.999.999'' \<and> re_match cidr_re ''10.0.5.0/24''"
proof -
  have o: "octet ''999''" "octet ''10''" "octet ''0''" "octet ''5''"
    by code_simp+
  have m: "str_nat 24 = ''24''"
    by code_simp
  have "\<exists>a b c d m e. octet a \<and> octet b \<and> octet c \<and> octet d
      \<and> (m = [] \<or> (\<exists>n\<le>32. m = CHR ''/'' # str_nat n))
      \<and> (e = [] \<or> e = [NL])
      \<and> ''999.999.999.999'' = a @ ''.'' @ b @ ''.'' @ c @ ''.'' @ d @ m @ e"
    by (rule exI [of _ "''999''"], rule exI [of _ "''999''"], rule exI [of _ "''999''"],
        rule exI [of _ "''999''"], rule exI [of _ "[]"], rule exI [of _ "[]"])
       (simp add: o)
  then have a: "re_match cidr_re ''999.999.999.999''"
    by (rule cidr_re_accepts_iff [THEN iffD2])
  have n: "\<exists>n\<le>32. ''/24'' = CHR ''/'' # str_nat n"
    by (rule exI [of _ 24]) (simp add: m)
  have "\<exists>a b c d m e. octet a \<and> octet b \<and> octet c \<and> octet d
      \<and> (m = [] \<or> (\<exists>n\<le>32. m = CHR ''/'' # str_nat n))
      \<and> (e = [] \<or> e = [NL])
      \<and> ''10.0.5.0/24'' = a @ ''.'' @ b @ ''.'' @ c @ ''.'' @ d @ m @ e"
    by (rule exI [of _ "''10''"], rule exI [of _ "''0''"], rule exI [of _ "''5''"],
        rule exI [of _ "''0''"], rule exI [of _ "''/24''"], rule exI [of _ "[]"])
       (insert n, simp add: o)
  then have b: "re_match cidr_re ''10.0.5.0/24''"
    by (rule cidr_re_accepts_iff [THEN iffD2])
  from a b show ?thesis by simp
qed

subsection \<open>Runs of main\<close>

text \<open>
  Claim C2, on the code. The wait for the NAT gateway fails in this run. \<open>setup_nat_gateway\<close>
  prints the exception, with the subnet and allocation identifiers, and returns \<open>None\<close>;
  \<open>main\<close> goes on: the route table is created and associated, the default route is
  created, and the run ends without an exception.
\<close>

theorem main_continues_after_nat_failure:
  "main 990 (Inr stub_wait_fails) (start [''vpc-123'', ''10.0.5.0/24'', ''0'']) =
     (Inr (),
       \<lparr>stdin = [],
        stdout =
          [vpc_prompt, cidr_prompt,
           ''Create subnet with subnetID subnet-1'',
           ''Creating NAT gateway nat-1...'' @ [NL],
           ''Error returned when creating NAT Gateway Using subnet ID subnet-1, Allocation ID: eipalloc-1: ''
             @ ''Waiter NatGatewayAvailable failed: Max attempts exceeded'' @ [NL],
           ''Route created'' @ [NL],
           ''How many routes need to be created?''],
        calls =
          [DescribeInstances, CreateInternetGateway,
           AttachInternetGateway ''igw-1'' ''vpc-123'',
           CreateSubnet ''vpc-123'' ''10.0.5.0/24'', AllocateAddress,
           CreateNatGateway ''subnet-1'' ''eipalloc-1'',
           WaitNatGatewayAvailable ''nat-1'', CreateRouteTable ''vpc-123'',
           AssociateRouteTable ''rtb-1'' ''subnet-1'',
           CreateRoute ''rtb-1'' ''0.0.0.0/0'' (GatewayId (Some ''igw-1''))],
        failed = [WaitNatGatewayAvailable ''nat-1''], slept = 0\<rparr>)"
  by code_simp

text \<open>
  Claim C3, on the code. The operator asks for two additional routes and the client refuses
  the first. \<open>create_route\<close> raises, nothing in \<open>main\<close> catches it: the run ends with the
  exception, no warning is printed, and the second destination is still on standard
  input, never read.
\<close>

theorem main_aborts_on_additional_route_error:
  "main 990 (Inr (stub_route_denied ''172.16.0.0/16''))
        (start [''vpc-123'', ''10.0.5.0/24'', ''2'', ''172.16.0.0/16'', ''192.168.1.0/24'']) =
     (Inl (route_error ''172.16.0.0/16'' (Some ''nat-1'') ''rtb-1'' denied_msg),
       \<lparr>stdin = [''192.168.1.0/24''],
        stdout =
          [vpc_prompt, cidr_prompt,
           ''Create subnet with subnetID subnet-1'',
           ''Creating NAT gateway nat-1...'' @ [NL],
           ''Created NAT gateway'' @ [NL],
           ''Route created'' @ [NL],
           ''How many routes need to be created?'',
           ''Enter destination for route #0''],
        calls =
          [DescribeInstances, CreateInternetGateway,
           AttachInternetGateway ''igw-1'' ''vpc-123'',
           CreateSubnet ''vpc-123'' ''10.0.5.0/24'', AllocateAddress,
           CreateNatGateway ''subnet-1'' ''eipalloc-1'',
           WaitNatGatewayAvailable ''nat-1'', CreateRouteTable ''vpc-123'',
           AssociateRouteTable ''rtb-1'' ''subnet-1'',
           CreateRoute ''rtb-1'' ''0.0.0.0/0'' (GatewayId (Some ''igw-1'')),
           CreateRoute ''rtb-1'' ''172.16.0.0/16'' (NatGatewayId (Some ''nat-1''))],
        failed = [CreateRoute ''rtb-1'' ''172.16.0.0/16'' (NatGatewayId (Some ''nat-1''))], slept = 0\<rparr>)"
  by code_simp

text \<open>
  Claim C9, on the code. The operator first enters an empty line and then a network
  identifier. The loop reads the identifier and every later line without assigning any
  of them to \<open>vpc\<close>, so it goes on until standard input ends, and the run stops with
  \<open>EOFError\<close> before any resource is created.
\<close>

theorem main_never_leaves_vpc_loop:
  "main 990 (Inr stub_client) (start ['''', ''vpc-123'', ''10.0.5.0/24'', ''0'']) =
     (Inl EOFError,
       \<lparr>stdin = [],
        stdout =
          [vpc_prompt,
           ''Please provide a valid VPC ID.'', vpc_prompt,
           ''Please provide a valid VPC ID.'', vpc_prompt,
           ''Please provide a valid VPC ID.'', vpc_prompt,
           ''Please provide a valid VPC ID.'', vpc_prompt],
        calls = [DescribeInstances], failed = [], slept = 0\<rparr>)"
  by code_simp

text \<open>Whatever the operator enters after an empty first line, the loop ends only with the
  input.\<close>

lemma vpc_loop_empty:
  "vpc_loop [] w =
     (Inl EOFError,
      w\<lparr>stdin := [],
        stdout := stdout w @ concat (replicate (length (stdin w)) [''Please provide a valid VPC ID.'', vpc_prompt])
                  @ [''Please provide a valid VPC ID.'', vpc_prompt]\<rparr>)"
proof (induction "stdin w" arbitrary: w)
  case Nil
  then show ?case
    by (subst vpc_loop.simps) (simp add: py_input_def py_print_def)
next
  case (Cons l ls)
  from Cons.hyps(2) [symmetric] have s: "stdin w = l # ls" .
  let ?w = "w\<lparr>stdin := ls, stdout := stdout w @ [''Please provide a valid VPC ID.'', vpc_prompt]\<rparr>"
  have "vpc_loop [] w = vpc_loop [] ?w"
    by (subst vpc_loop.simps) (simp add: py_input_def py_print_def s)
  also have "\<dots> = (Inl EOFError,
      ?w\<lparr>stdin := [],
        stdout := stdout ?w @ concat (replicate (length (stdin ?w)) [''Please provide a valid VPC ID.'', vpc_prompt])
                  @ [''Please provide a valid VPC ID.'', vpc_prompt]\<rparr>)"
    by (rule Cons.hyps(1)) simp
  finally show ?case
    by (simp add: s)
qed

subsection \<open>The order of the calls in a run\<close>






















end
